theory Spec2Isabelle
  imports Main "HOL-Library.Sublist"
begin

section \<open>JavaScript values\<close>

text \<open>
  A JavaScript string is a sequence of UTF-16 code units; \<open>slice\<close>, \<open>startsWith\<close> and the
  regular expressions of the source (no \<open>u\<close> flag) all work on code units. A code unit is a
  natural number here, and \<open>ascii\<close> writes a literal.
\<close>

type_synonym jsstring = "nat list"

definition ascii :: "string \<Rightarrow> jsstring" where
  "ascii s = map of_char s"

text \<open>The decimal digits of a non-negative integer, as a template literal prints it.\<close>

function digits :: "nat \<Rightarrow> jsstring" where
  "digits n = (if n < 10 then [48 + n] else digits (n div 10) @ [48 + n mod 10])"
  by pat_completeness auto
termination
  by (relation "measure id") auto

declare digits.simps [simp del]

text \<open>A template literal prints a missing (undefined) string as the word undefined.\<close>

definition template :: "jsstring option \<Rightarrow> jsstring" where
  "template v = (case v of None \<Rightarrow> ascii ''undefined'' | Some s \<Rightarrow> s)"

text \<open>Truthiness of an optional string: undefined and the empty string are falsy.\<close>

definition truthy :: "jsstring option \<Rightarrow> bool" where
  "truthy v = (case v of None \<Rightarrow> False | Some s \<Rightarrow> s \<noteq> [])"

text \<open>
  The values \<open>JSON.parse\<close> returns. A number is kept as the decimal it denotes
  (mantissa and exponent of ten); the code never computes with one.
\<close>

datatype json =
    JNull
  | JBool bool
  | JNum int int
  | JStr jsstring
  | JArr "json list"
  | JObj "(jsstring \<times> json) list"

datatype jserror = Error jsstring

datatype 'a promise = Resolved 'a | Rejected jserror | Unsettled

section \<open>Data model (types.ts)\<close>

text \<open>The options a caller passes; \<open>None\<close> is a property left out.\<close>

record TunnelOptions =
  port :: nat
  localHost :: "jsstring option"
  serverHost :: "jsstring option"
  serverPort :: "nat option"
  apiPort :: "nat option"
  subdomain :: "jsstring option"
  apiToken :: "jsstring option"
  localHttps :: "bool option"
  printRequests :: "bool option"

text \<open>The options as the constructor stores them: the four defaulted fields are present.\<close>

record Opts =
  o_port :: nat
  o_localHost :: jsstring
  o_serverHost :: jsstring
  o_serverPort :: nat
  o_apiPort :: nat
  o_subdomain :: "jsstring option"
  o_apiToken :: "jsstring option"
  o_localHttps :: "bool option"
  o_printRequests :: "bool option"

record TunnelInfo =
  info_id :: jsstring
  info_url :: jsstring
  remoteHost :: jsstring
  remotePort :: nat

record CreateTunnelResponse =
  r_id :: int
  r_tunnel_id :: jsstring
  r_url :: jsstring
  r_created_at :: jsstring
  r_connected_at :: "jsstring option"
  r_completed_at :: "jsstring option"
  r_playwright_result :: "jsstring option"

section \<open>The tunnel (client/tunnel.ts)\<close>

datatype readyState = CONNECTING | OPEN | CLOSING | CLOSED

text \<open>A WebSocket object of the ws library: what it was constructed with, its state, and
  the frames handed to \<open>send\<close>.\<close>

record WebSocket =
  ws_address :: jsstring
  ws_headers :: "(jsstring \<times> jsstring) list"
  readyState :: readyState
  ws_sent :: "jsstring list"

text \<open>The Duplex stream made from a WebSocket (a reference into the socket store), with the
  socket fields the source adds to it.\<close>

record Duplex =
  s_ws :: nat
  s_encrypted :: bool
  s_remoteAddress :: jsstring
  s_remotePort :: nat

record TunnelHTTP2Handler =
  h_localHost :: jsstring
  h_localPort :: nat
  h_localHttps :: bool
  h_streams :: "Duplex list"

datatype event =
    Open_ev "jsstring option"
  | Close_ev
  | Error_ev jserror
  | Request_ev jsstring jsstring
  | TunnelDone_ev json

text \<open>What the tunnel does to the outside, in order: events emitted to listeners, calls of
  \<open>close\<close> on a WebSocket, start and close of the HTTP/2 handler, console lines.\<close>

datatype effect =
    Emit event
  | WsClose nat
  | H2Start
  | H2Close
  | Console jsstring

text \<open>
  The fields of class Tunnel, followed by the two things it acts on: the store of the
  WebSocket objects created so far (\<open>wsConnections\<close> holds indices into it, as the source
  holds references) and the trace of effects.
\<close>

record Tunnel =
  opts :: Opts
  closed :: bool
  h2Handler :: "TunnelHTTP2Handler option"
  wsConnections :: "nat list"
  tunnelInfo :: "TunnelInfo option"
  url :: "jsstring option"
  tunnelId :: "jsstring option"
  sockets :: "WebSocket list"
  trace :: "effect list"

definition DEFAULT_SERVER_HOST :: jsstring where
  "DEFAULT_SERVER_HOST = ascii ''abbreviated.ai''"

definition DEFAULT_SERVER_PORT :: nat where
  "DEFAULT_SERVER_PORT = 443"

definition constructor :: "TunnelOptions \<Rightarrow> Tunnel" where
  "constructor opt =
     \<lparr> opts = \<lparr> o_port = port opt,
                 o_localHost = (case localHost opt of None \<Rightarrow> ascii ''localhost'' | Some h \<Rightarrow> h),
                 o_serverHost = (case serverHost opt of None \<Rightarrow> DEFAULT_SERVER_HOST | Some h \<Rightarrow> h),
                 o_serverPort = (case serverPort opt of None \<Rightarrow> DEFAULT_SERVER_PORT | Some p \<Rightarrow> p),
                 o_apiPort = (case apiPort opt of Some p \<Rightarrow> p
                              | None \<Rightarrow> (case serverPort opt of Some p \<Rightarrow> p
                                         | None \<Rightarrow> DEFAULT_SERVER_PORT)),
                 o_subdomain = subdomain opt,
                 o_apiToken = apiToken opt,
                 o_localHttps = localHttps opt,
                 o_printRequests = printRequests opt \<rparr>,
       closed = False,
       h2Handler = None,
       wsConnections = [],
       tunnelInfo = None,
       url = None,
       tunnelId = None,
       sockets = [],
       trace = [] \<rparr>"

text \<open>Emitting an event records it; what the listeners do with it is outside the model.\<close>

definition emit :: "event \<Rightarrow> Tunnel \<Rightarrow> Tunnel" where
  "emit e t = t\<lparr>trace := trace t @ [Emit e]\<rparr>"

subsection \<open>close\<close>

text \<open>\<open>ws.close()\<close> on an open or connecting socket starts its closing handshake.\<close>

definition ws_close :: "nat \<Rightarrow> Tunnel \<Rightarrow> Tunnel" where
  "ws_close r t =
     t\<lparr>sockets := (sockets t)[r := (sockets t ! r)\<lparr>readyState := CLOSING\<rparr>],
       trace := trace t @ [WsClose r]\<rparr>"

fun close_channels :: "nat list \<Rightarrow> Tunnel \<Rightarrow> Tunnel" where
  "close_channels [] t = t"
| "close_channels (r # rs) t =
     close_channels rs
       (if readyState (sockets t ! r) = OPEN \<or> readyState (sockets t ! r) = CONNECTING
        then ws_close r t else t)"

definition close :: "Tunnel \<Rightarrow> Tunnel" where
  "close t0 =
     (let t1 = t0\<lparr>closed := True\<rparr>;
          t2 = (case h2Handler t1 of
                  Some h \<Rightarrow> t1\<lparr>trace := trace t1 @ [H2Close], h2Handler := None\<rparr>
                | None \<Rightarrow> t1);
          t3 = close_channels (wsConnections t2) t2;
          t4 = t3\<lparr>wsConnections := []\<rparr>
      in emit Close_ev t4)"

subsection \<open>connectToServer\<close>

text \<open>How one handshake ends: the socket's \<open>open\<close> event, its \<open>error\<close> event with the
  error's message, or neither.\<close>

datatype handshake = Opened | Errored jsstring | Pending

definition ws_connect_url :: "TunnelInfo \<Rightarrow> jsstring" where
  "ws_connect_url info =
     (let wsScheme = (if remotePort info = 443 then ascii ''wss'' else ascii ''ws'');
          wsPortSuffix = (if remotePort info = 443 \<or> remotePort info = 80 then []
                          else ascii '':'' @ digits (remotePort info))
      in wsScheme @ ascii ''://'' @ remoteHost info @ wsPortSuffix
           @ ascii ''/connect?tunnel_id='' @ info_id info)"

definition handshake_headers :: "Opts \<Rightarrow> (jsstring \<times> jsstring) list" where
  "handshake_headers os =
     [(ascii ''Authorization'', ascii ''Bearer '' @ template (o_apiToken os))]"

definition handshake_error :: "TunnelInfo \<Rightarrow> jsstring \<Rightarrow> jserror" where
  "handshake_error info msg =
     Error (ascii ''WebSocket connection failed: '' @ msg @ ascii '' ('' @ remoteHost info
            @ ascii '':'' @ digits (remotePort info) @ ascii '')'')"

definition createWebSocketStream :: "TunnelInfo \<Rightarrow> nat \<Rightarrow> Duplex" where
  "createWebSocketStream info r =
     \<lparr> s_ws = r, s_encrypted = False, s_remoteAddress = remoteHost info,
       s_remotePort = remotePort info \<rparr>"

text \<open>The body of the for loop, over the indices still to do. A socket is constructed
  (connecting), then the loop waits for its handshake.\<close>

fun connect_loop ::
  "(nat \<Rightarrow> handshake) \<Rightarrow> TunnelInfo \<Rightarrow> nat list \<Rightarrow> Duplex list \<Rightarrow> Tunnel
     \<Rightarrow> Tunnel \<times> Duplex list promise" where
  "connect_loop hs info [] streams t = (t, Resolved streams)"
| "connect_loop hs info (i # is) streams t =
     (let r = length (sockets t);
          ws = \<lparr> ws_address = ws_connect_url info,
                 ws_headers = handshake_headers (opts t),
                 readyState = CONNECTING, ws_sent = [] \<rparr>;
          t1 = t\<lparr>sockets := sockets t @ [ws]\<rparr>
      in case hs i of
           Pending \<Rightarrow> (t1, Unsettled)
         | Errored msg \<Rightarrow>
             (t1\<lparr>sockets := (sockets t1)[r := ws\<lparr>readyState := CLOSED\<rparr>]\<rparr>,
              Rejected (handshake_error info msg))
         | Opened \<Rightarrow>
             connect_loop hs info is (streams @ [createWebSocketStream info r])
               (t1\<lparr>sockets := (sockets t1)[r := ws\<lparr>readyState := OPEN\<rparr>],
                   wsConnections := wsConnections t1 @ [r]\<rparr>))"

text \<open>\<open>cpus\<close> is \<open>os.cpus().length\<close>.\<close>

definition connectToServer :: "nat \<Rightarrow> (nat \<Rightarrow> handshake) \<Rightarrow> Tunnel \<Rightarrow> Tunnel \<times> unit promise" where
  "connectToServer cpus hs t =
     (case tunnelInfo t of
        None \<Rightarrow> (t, Rejected (Error (ascii ''Tunnel info not available'')))
      | Some info \<Rightarrow>
          (let numConnections = min cpus 16
           in case connect_loop hs info [0..<numConnections] [] t of
                (t1, Resolved streams) \<Rightarrow>
                  (t1\<lparr>h2Handler :=
                        Some \<lparr> h_localHost = o_localHost (opts t1),
                               h_localPort = o_port (opts t1),
                               h_localHttps = (case o_localHttps (opts t1) of
                                                 None \<Rightarrow> False | Some b \<Rightarrow> b),
                               h_streams = streams \<rparr>,
                      trace := trace t1 @ [H2Start]\<rparr>,
                   Resolved ())
              | (t1, Rejected e) \<Rightarrow> (t1, Rejected e)
              | (t1, Unsettled) \<Rightarrow> (t1, Unsettled)))"

subsection \<open>The text-frame listener of a channel\<close>






subsection \<open>checkLocalServer\<close>

text \<open>How the HEAD request to the local server ends: a response, the timeout, or an
  \<open>error\<close> event with the error's code and message.\<close>

datatype probe = ProbeResponse | ProbeTimeout | ProbeError "jsstring option" jsstring

definition checkLocalServer :: "Opts \<Rightarrow> probe \<Rightarrow> unit promise" where
  "checkLocalServer os pr =
     (case pr of
        ProbeResponse \<Rightarrow> Resolved ()
      | ProbeTimeout \<Rightarrow>
          Rejected (Error (ascii ''Local server at '' @ o_localHost os @ ascii '':''
            @ digits (o_port os) @ ascii '' is not responding (timeout)''))
      | ProbeError code message \<Rightarrow>
          (if code = Some (ascii ''ECONNREFUSED'')
           then Rejected (Error (ascii ''Local server at '' @ o_localHost os @ ascii '':''
                  @ digits (o_port os) @ ascii '' is not running (connection refused)''))
           else Rejected (Error (ascii ''Could not reach local server at '' @ o_localHost os
                  @ ascii '':'' @ digits (o_port os) @ ascii '': '' @ message))))"

subsection \<open>getTunnelInfo\<close>

definition api_scheme :: "Opts \<Rightarrow> jsstring" where
  "api_scheme os = (if o_apiPort os = 443 then ascii ''https'' else ascii ''http'')"

definition allocation_headers :: "Opts \<Rightarrow> (jsstring \<times> jsstring) list" where
  "allocation_headers os =
     (ascii ''Content-Type'', ascii ''application/json'')
     # (if truthy (o_apiToken os)
        then [(ascii ''Authorization'', ascii ''Bearer '' @ template (o_apiToken os))]
        else [])"

text \<open>The class \<open>\s\<close> of a regular expression, which is also what \<open>trim\<close> removes:
  tab, line feed, vertical tab, form feed, carriage return, space, no-break space, the
  Unicode space separators, the line and paragraph separators and the byte order mark.\<close>

definition is_space :: "nat \<Rightarrow> bool" where
  "is_space c =
     (c \<in> set [9, 10, 11, 12, 13, 32, 160, 5760, 8232, 8233, 8239, 8287, 12288, 65279]
      \<or> (8192 \<le> c \<and> c \<le> 8202))"

text \<open>\<open>data.replace(/<[^>]+>/g, "")\<close>. A match starts at a \<open><\<close> that is followed by at
  least one code unit other than \<open>>\<close> and then a \<open>>\<close>; the class \<open>[^>]\<close> cannot step over
  a \<open>>\<close>, so the match ends at the first one. The search goes on after the match.\<close>

function strip_tags :: "jsstring \<Rightarrow> jsstring" where
  "strip_tags [] = []"
| "strip_tags (c # cs) =
     (if c = 60 \<and> takeWhile (\<lambda>x. x \<noteq> 62) cs \<noteq> [] \<and> dropWhile (\<lambda>x. x \<noteq> 62) cs \<noteq> []
      then strip_tags (tl (dropWhile (\<lambda>x. x \<noteq> 62) cs))
      else c # strip_tags cs)"
  by pat_completeness auto
termination
proof (relation "measure length")
  show "wf (measure length)" by simp
next
  fix c :: nat and cs :: "nat list"
  have "length (dropWhile (\<lambda>x. x \<noteq> 62) cs) \<le> length cs"
    by (rule length_dropWhile_le)
  then have "length (tl (dropWhile (\<lambda>x. x \<noteq> 62) cs)) \<le> length cs"
    by simp
  then show "(tl (dropWhile (\<lambda>x. x \<noteq> 62) cs), c # cs) \<in> measure length" by simp
next
  fix c :: nat and cs :: "nat list"
  show "(cs, c # cs) \<in> measure length" by simp
qed

text \<open>\<open>.replace(/\s+/g, " ")\<close>: every maximal run of white space becomes one space.\<close>

function collapse_ws :: "jsstring \<Rightarrow> jsstring" where
  "collapse_ws [] = []"
| "collapse_ws (c # cs) =
     (if is_space c then 32 # collapse_ws (dropWhile is_space cs)
      else c # collapse_ws cs)"
  by pat_completeness auto
termination
proof (relation "measure length")
  show "wf (measure length)" by simp
next
  fix c :: nat and cs :: "nat list"
  have "length (dropWhile is_space cs) \<le> length cs" by (rule length_dropWhile_le)
  then show "(dropWhile is_space cs, c # cs) \<in> measure length" by simp
next
  fix c :: nat and cs :: "nat list"
  show "(cs, c # cs) \<in> measure length" by simp
qed

definition trim :: "jsstring \<Rightarrow> jsstring" where
  "trim s = rev (dropWhile is_space (rev (dropWhile is_space s)))"

definition plain :: "jsstring \<Rightarrow> jsstring" where
  "plain data = trim (collapse_ws (strip_tags data))"

definition reason :: "nat \<Rightarrow> jsstring \<Rightarrow> jsstring" where
  "reason status data =
     (if status = 503 \<or> status = 502 \<or> status = 504
      then ascii ''Tunnel server is temporarily unavailable (HTTP '' @ digits status @ ascii '')''
      else if status = 401 \<or> status = 403
      then ascii ''Authentication failed (HTTP '' @ digits status @ ascii '') '' @ [8212]
             @ ascii '' check your API token''
      else if status = 429
      then ascii ''Rate limited by tunnel server (HTTP 429) '' @ [8212]
             @ ascii '' try again later''
      else ascii ''HTTP '' @ digits status
             @ (if plain data \<noteq> [] then ascii '': '' @ take 120 (plain data) else []))"

text \<open>
  A parsed URL, as the platform's \<open>URL\<close> class holds it (the record of the URL Standard):
  the host and the path are kept in their serialized form. The parser itself is a
  parameter of the model.
\<close>

record URL =
  u_scheme :: jsstring
  u_username :: jsstring
  u_password :: jsstring
  u_host :: "jsstring option"
  u_port :: "nat option"
  u_path :: jsstring
  u_query :: "jsstring option"
  u_fragment :: "jsstring option"

definition is_special :: "jsstring \<Rightarrow> bool" where
  "is_special s =
     (s \<in> set [ascii ''ftp'', ascii ''file'', ascii ''http'', ascii ''https'', ascii ''ws'',
                ascii ''wss''])"

definition default_port :: "jsstring \<Rightarrow> nat option" where
  "default_port s =
     (if s = ascii ''ftp'' then Some 21
      else if s = ascii ''http'' \<or> s = ascii ''ws'' then Some 80
      else if s = ascii ''https'' \<or> s = ascii ''wss'' then Some 443
      else None)"

definition includes_credentials :: "URL \<Rightarrow> bool" where
  "includes_credentials u = (u_username u \<noteq> [] \<or> u_password u \<noteq> [])"

text \<open>The setter of \<open>protocol\<close>, given a scheme name and its colon. The platform leaves
  the URL as it is when the change would cross between the special schemes and the
  others, would make a \<open>file\<close> URL with credentials or a port, or would leave \<open>file\<close> with
  an empty host; otherwise it sets the scheme and drops a port that is the new default.\<close>

definition set_protocol :: "URL \<Rightarrow> jsstring \<Rightarrow> URL" where
  "set_protocol u s =
     (if is_special (u_scheme u) \<noteq> is_special s then u
      else if (includes_credentials u \<or> u_port u \<noteq> None) \<and> s = ascii ''file'' then u
      else if u_scheme u = ascii ''file'' \<and> u_host u = Some [] then u
      else if u_port u = default_port s then u\<lparr>u_scheme := s, u_port := None\<rparr>
      else u\<lparr>u_scheme := s\<rparr>)"

definition port_getter :: "URL \<Rightarrow> jsstring" where
  "port_getter u = (case u_port u of None \<Rightarrow> [] | Some p \<Rightarrow> digits p)"

text \<open>The setter of \<open>port\<close>, given the empty string.\<close>

definition clear_port :: "URL \<Rightarrow> URL" where
  "clear_port u =
     (if u_host u = None \<or> u_host u = Some [] \<or> u_scheme u = ascii ''file'' then u
      else u\<lparr>u_port := None\<rparr>)"

definition href :: "URL \<Rightarrow> jsstring" where
  "href u =
     u_scheme u @ ascii '':''
     @ (case u_host u of
          None \<Rightarrow> []
        | Some h \<Rightarrow>
            ascii ''//''
            @ (if includes_credentials u
               then u_username u
                    @ (if u_password u \<noteq> [] then ascii '':'' @ u_password u else [])
                    @ ascii ''@''
               else [])
            @ h
            @ (case u_port u of None \<Rightarrow> [] | Some p \<Rightarrow> ascii '':'' @ digits p))
     @ u_path u
     @ (case u_query u of None \<Rightarrow> [] | Some q \<Rightarrow> ascii ''?'' @ q)
     @ (case u_fragment u of None \<Rightarrow> [] | Some f \<Rightarrow> ascii ''#'' @ f)"

text \<open>The rewrite of the parsed URL to the scheme the allocation call used.\<close>

definition rewrite_scheme :: "jsstring \<Rightarrow> URL \<Rightarrow> URL" where
  "rewrite_scheme scheme parsedUrl =
     (if scheme = ascii ''https''
      then (let u1 = set_protocol parsedUrl (ascii ''https'')
            in if port_getter u1 = ascii ''80'' then clear_port u1 else u1)
      else parsedUrl)"

text \<open>
  The listener of the response's \<open>end\<close> event. \<open>parse_response\<close> is \<open>JSON.parse\<close> at the
  declared type of the response and \<open>URL_parse\<close> is \<open>new URL\<close>; each is \<open>None\<close> where the
  platform throws. \<open>statusCode\<close> is \<open>None\<close> where the response has none.
\<close>

definition on_response_end ::
  "(jsstring \<Rightarrow> CreateTunnelResponse option) \<Rightarrow> (jsstring \<Rightarrow> URL option) \<Rightarrow> Opts
     \<Rightarrow> nat option \<Rightarrow> jsstring \<Rightarrow> jserror + TunnelInfo" where
  "on_response_end parse_response URL_parse os statusCode data =
     (if statusCode \<noteq> Some 200
      then (let status = (case statusCode of None \<Rightarrow> 0 | Some c \<Rightarrow> c)
            in Inl (Error (ascii ''Failed to create tunnel: '' @ reason status data)))
      else (case parse_response data of
              None \<Rightarrow> Inl (Error (ascii ''Failed to parse tunnel response: '' @ data))
            | Some response \<Rightarrow>
                (case URL_parse (r_url response) of
                   None \<Rightarrow> Inl (Error (ascii ''Failed to parse tunnel response: '' @ data))
                 | Some parsedUrl \<Rightarrow>
                     Inr \<lparr> info_id = r_tunnel_id response,
                           info_url = href (rewrite_scheme (api_scheme os) parsedUrl),
                           remoteHost = o_serverHost os,
                           remotePort = o_serverPort os \<rparr>)))"

text \<open>How the allocation request ends: a response read to its end, the timeout, or an
  \<open>error\<close> event with the error's code and message.\<close>

datatype allocation =
    AllocResponse "nat option" jsstring
  | AllocTimeout
  | AllocError "jsstring option" jsstring

definition getTunnelInfo ::
  "(jsstring \<Rightarrow> CreateTunnelResponse option) \<Rightarrow> (jsstring \<Rightarrow> URL option) \<Rightarrow> Opts
     \<Rightarrow> allocation \<Rightarrow> TunnelInfo promise" where
  "getTunnelInfo parse_response URL_parse os al =
     (case al of
        AllocResponse statusCode data \<Rightarrow>
          (case on_response_end parse_response URL_parse os statusCode data of
             Inl e \<Rightarrow> Rejected e
           | Inr info \<Rightarrow> Resolved info)
      | AllocTimeout \<Rightarrow>
          Rejected (Error (ascii ''Tunnel server at '' @ o_serverHost os @ ascii '':''
            @ digits (o_apiPort os) @ ascii '' timed out''))
      | AllocError code message \<Rightarrow>
          (if code = Some (ascii ''ECONNREFUSED'')
           then Rejected (Error (ascii ''Tunnel server at '' @ o_serverHost os @ ascii '':''
                  @ digits (o_apiPort os) @ ascii '' is not running (connection refused)''))
           else if code = Some (ascii ''ENOTFOUND'')
           then Rejected (Error (ascii ''Tunnel server host '' @ [39] @ o_serverHost os @ [39]
                  @ ascii '' could not be resolved '' @ [8212]
                  @ ascii '' check your network connection''))
           else if code = Some (ascii ''ETIMEDOUT'') \<or> sublist (ascii ''socket hang up'') message
           then Rejected (Error (ascii ''Tunnel server at '' @ o_serverHost os @ ascii '':''
                  @ digits (o_apiPort os) @ ascii '' is not responding''))
           else Rejected (Error message)))"

subsection \<open>open\<close>

definition open_tunnel ::
  "(jsstring \<Rightarrow> CreateTunnelResponse option) \<Rightarrow> (jsstring \<Rightarrow> URL option) \<Rightarrow> probe
     \<Rightarrow> allocation \<Rightarrow> nat \<Rightarrow> (nat \<Rightarrow> handshake) \<Rightarrow> Tunnel \<Rightarrow> Tunnel \<times> unit promise" where
  "open_tunnel parse_response URL_parse pr al cpus hs t =
     (case checkLocalServer (opts t) pr of
        Rejected e \<Rightarrow> (emit (Error_ev e) t, Rejected e)
      | Unsettled \<Rightarrow> (t, Unsettled)
      | Resolved u \<Rightarrow>
          (case getTunnelInfo parse_response URL_parse (opts t) al of
             Rejected e \<Rightarrow> (emit (Error_ev e) t, Rejected e)
           | Unsettled \<Rightarrow> (t, Unsettled)
           | Resolved info \<Rightarrow>
               (let t1 = t\<lparr>tunnelInfo := Some info, url := Some (info_url info),
                            tunnelId := Some (info_id info)\<rparr>
                in case connectToServer cpus hs t1 of
                     (t2, Rejected e) \<Rightarrow> (emit (Error_ev e) t2, Rejected e)
                   | (t2, Unsettled) \<Rightarrow> (t2, Unsettled)
                   | (t2, Resolved v) \<Rightarrow> (emit (Open_ev (url t2)) t2, Resolved ()))))"

section \<open>The HTTP/2 handler (client/tunnel-http2-handler.ts)\<close>

definition HOP_BY_HOP_HEADERS :: "jsstring set" where
  "HOP_BY_HOP_HEADERS =
     set [ascii ''connection'', ascii ''keep-alive'', ascii ''proxy-authenticate'',
          ascii ''proxy-authorization'', ascii ''te'', ascii ''trailers'',
          ascii ''transfer-encoding'']"

text \<open>\<open>toLowerCase\<close> on a header name. Header names are HTTP tokens, hence ASCII, and on
  ASCII the method changes the letters A to Z only.\<close>

definition toLowerCase :: "jsstring \<Rightarrow> jsstring" where
  "toLowerCase s = map (\<lambda>c. if 65 \<le> c \<and> c \<le> 90 then c + 32 else c) s"

definition startsWith :: "jsstring \<Rightarrow> jsstring \<Rightarrow> bool" where
  "startsWith s p = prefix p s"

text \<open>The value of a header in the objects of the platform: a string, a list of strings, or
  undefined. \<open>to_String\<close> is the conversion \<open>String(value)\<close>.\<close>

datatype header_value = Single jsstring | Multiple "jsstring list" | Undefined

fun join_comma :: "jsstring list \<Rightarrow> jsstring" where
  "join_comma [] = []"
| "join_comma [s] = s"
| "join_comma (s # ss) = s @ ascii '','' @ join_comma ss"

fun to_String :: "header_value \<Rightarrow> jsstring" where
  "to_String (Single s) = s"
| "to_String (Multiple ss) = join_comma ss"
| "to_String Undefined = ascii ''undefined''"

subsection \<open>handleHttpRequest\<close>





text \<open>
  The response object of the virtual stream, as far as the handlers see it: whether the
  header block went out, the status and headers it carries, the body chunks written, and
  whether it was ended or its stream closed. A fresh response has status 200.
\<close>

record Http2ServerResponse =
  headersSent :: bool
  statusCode :: nat
  res_headers :: "jsstring \<rightharpoonup> header_value"
  res_body :: "jsstring list"
  res_ending :: bool
  res_closed :: bool

text \<open>\<open>res.writeHead\<close>: nothing on a closed stream, an exception when the header block
  already went out.\<close>

definition writeHead ::
  "nat \<Rightarrow> (jsstring \<rightharpoonup> header_value) \<Rightarrow> Http2ServerResponse \<Rightarrow> jserror + Http2ServerResponse" where
  "writeHead status hs r =
     (if res_closed r then Inr r
      else if headersSent r then Inl (Error (ascii ''ERR_HTTP2_HEADERS_SENT''))
      else Inr (r\<lparr>headersSent := True, statusCode := status, res_headers := hs\<rparr>))"

text \<open>\<open>res.end(chunk)\<close>: nothing on a response already ended or closed; otherwise the
  chunk is written (after the header block, if that is still to go) and the response
  ended.\<close>

definition res_end :: "jsstring \<Rightarrow> Http2ServerResponse \<Rightarrow> Http2ServerResponse" where
  "res_end chunk r =
     (if res_closed r \<or> res_ending r then r
      else r\<lparr>headersSent := True, res_body := res_body r @ [chunk], res_ending := True\<rparr>)"

text \<open>One exchange: the virtual response and the lines written to the console.\<close>

record Exchange =
  res :: Http2ServerResponse
  console :: "jsstring list"

definition text_plain :: "jsstring \<rightharpoonup> header_value" where
  "text_plain = [ascii ''content-type'' \<mapsto> Single (ascii ''text/plain'')]"

text \<open>The failure replies share one shape: the guarded \<open>writeHead(502, ...)\<close>, then
  \<open>res.end\<close> with the text.\<close>

definition reply_502 :: "jsstring \<Rightarrow> Exchange \<Rightarrow> jserror + Exchange" where
  "reply_502 body x =
     (case (if \<not> headersSent (res x) then writeHead 502 text_plain (res x) else Inr (res x)) of
        Inl e \<Rightarrow> Inl e
      | Inr r \<Rightarrow> Inr (x\<lparr>res := res_end body r\<rparr>))"

text \<open>The callback of the pipeline from the virtual request into the local request; \<open>err\<close>
  is the message of the error, if there is one.\<close>

definition request_pipeline_done :: "jsstring option \<Rightarrow> Exchange \<Rightarrow> jserror + Exchange" where
  "request_pipeline_done err x =
     (case err of
        None \<Rightarrow> Inr x
      | Some message \<Rightarrow>
          reply_502 (ascii ''Bad Gateway'')
            (x\<lparr>console := console x @ [ascii ''Request pipeline error: '' @ message]\<rparr>))"

text \<open>The listener of the local request's \<open>error\<close> event.\<close>

definition client_request_error :: "jsstring \<Rightarrow> Exchange \<Rightarrow> jserror + Exchange" where
  "client_request_error message x =
     reply_502 (ascii ''Failed to connect to local server: '' @ message)
       (x\<lparr>console := console x @ [ascii ''Local request error: '' @ message]\<rparr>)"

text \<open>The callback of the pipeline from the local response into the virtual response.\<close>

definition response_pipeline_done :: "jsstring option \<Rightarrow> Exchange \<Rightarrow> jserror + Exchange" where
  "response_pipeline_done err x =
     (case err of
        None \<Rightarrow> Inr x
      | Some message \<Rightarrow>
          Inr (x\<lparr>console := console x @ [ascii ''Response pipeline error: '' @ message]\<rparr>))"


subsection \<open>handleWebSocketUpgrade\<close>

definition localWsUrl :: "TunnelHTTP2Handler \<Rightarrow> jsstring \<Rightarrow> jsstring" where
  "localWsUrl h req_url =
     (if h_localHttps h then ascii ''wss'' else ascii ''ws'') @ ascii ''://'' @ h_localHost h
       @ ascii '':'' @ digits (h_localPort h) @ req_url"

definition wsHeaders :: "(jsstring \<times> header_value) list \<Rightarrow> (jsstring \<rightharpoonup> jsstring)" where
  "wsHeaders entries =
     fold (\<lambda>(key, value) h.
             if \<not> startsWith key (ascii '':'') \<and> toLowerCase key \<notin> HOP_BY_HOP_HEADERS
                \<and> toLowerCase key \<noteq> ascii ''host'' \<and> toLowerCase key \<noteq> ascii ''upgrade''
             then h(key \<mapsto> to_String value) else h)
          entries Map.empty"

text \<open>The \<open>open\<close> listener of the local WebSocket first writes the status 200 on the
  virtual response.\<close>

definition on_local_open :: "Http2ServerResponse \<Rightarrow> jserror + Http2ServerResponse" where
  "on_local_open r = writeHead 200 Map.empty r"

text \<open>Then it installs these listeners on the virtual request.\<close>

definition on_req_data :: "jsstring \<Rightarrow> WebSocket \<Rightarrow> WebSocket" where
  "on_req_data chunk localWs =
     (if readyState localWs = OPEN then localWs\<lparr>ws_sent := ws_sent localWs @ [chunk]\<rparr>
      else localWs)"

definition on_req_end :: "WebSocket \<Rightarrow> WebSocket" where
  "on_req_end localWs =
     (if readyState localWs = OPEN then localWs\<lparr>readyState := CLOSING\<rparr> else localWs)"

text \<open>What reaches the bridge from the virtual stream and from the local socket, in order:
  a chunk, the end of the stream, or the local socket changing its state by itself.\<close>

datatype inbound = Data jsstring | End | Becomes readyState

fun bridge_inbound :: "inbound list \<Rightarrow> WebSocket \<Rightarrow> WebSocket" where
  "bridge_inbound [] localWs = localWs"
| "bridge_inbound (Data chunk # evs) localWs = bridge_inbound evs (on_req_data chunk localWs)"
| "bridge_inbound (End # evs) localWs = bridge_inbound evs (on_req_end localWs)"
| "bridge_inbound (Becomes s # evs) localWs = bridge_inbound evs (localWs\<lparr>readyState := s\<rparr>)"

text \<open>The chunks of a sequence that arrive while the local socket is open, given its state
  at the start.\<close>

fun arriving_while_open :: "readyState \<Rightarrow> inbound list \<Rightarrow> jsstring list" where
  "arriving_while_open s [] = []"
| "arriving_while_open s (Data chunk # evs) =
     (if s = OPEN then chunk # arriving_while_open s evs else arriving_while_open s evs)"
| "arriving_while_open s (End # evs) =
     arriving_while_open (if s = OPEN then CLOSING else s) evs"
| "arriving_while_open s (Becomes s' # evs) = arriving_while_open s' evs"

section \<open>Notions used in the statements\<close>

text \<open>The socket of a channel whose handshake succeeded, and of one whose handshake
  failed.\<close>

definition opened_socket :: "TunnelInfo \<Rightarrow> Opts \<Rightarrow> WebSocket" where
  "opened_socket info os =
     \<lparr> ws_address = ws_connect_url info, ws_headers = handshake_headers os,
       readyState = OPEN, ws_sent = [] \<rparr>"

definition failed_socket :: "TunnelInfo \<Rightarrow> Opts \<Rightarrow> WebSocket" where
  "failed_socket info os =
     \<lparr> ws_address = ws_connect_url info, ws_headers = handshake_headers os,
       readyState = CLOSED, ws_sent = [] \<rparr>"

text \<open>The tunnel after \<open>n\<close> more channels were opened.\<close>

definition after_opened :: "TunnelInfo \<Rightarrow> nat \<Rightarrow> Tunnel \<Rightarrow> Tunnel" where
  "after_opened info n t =
     t\<lparr>sockets := sockets t @ replicate n (opened_socket info (opts t)),
       wsConnections := wsConnections t @ [length (sockets t)..<length (sockets t) + n]\<rparr>"


text \<open>Whether the regular expression \<open><[^>]+>\<close> matches somewhere in a string.\<close>

fun has_tag :: "jsstring \<Rightarrow> bool" where
  "has_tag [] = False"
| "has_tag (c # cs) =
     ((c = 60 \<and> takeWhile (\<lambda>x. x \<noteq> 62) cs \<noteq> [] \<and> dropWhile (\<lambda>x. x \<noteq> 62) cs \<noteq> [])
      \<or> has_tag cs)"

subsection \<open>Concrete inputs\<close>

definition example_options :: TunnelOptions where
  "example_options =
     \<lparr> port = 3000, localHost = None, serverHost = None, serverPort = None, apiPort = None,
       subdomain = None, apiToken = None, localHttps = None, printRequests = None \<rparr>"

definition example_info :: TunnelInfo where
  "example_info =
     \<lparr> info_id = ascii ''abc'', info_url = ascii ''https://abc.abbreviated.ai/'',
       remoteHost = ascii ''abbreviated.ai'', remotePort = 443 \<rparr>"

text \<open>A tunnel that has its allocation, and the same tunnel with a pool of two channels.\<close>

definition allocated :: Tunnel where
  "allocated = (constructor example_options)\<lparr>tunnelInfo := Some example_info\<rparr>"

definition running :: Tunnel where
  "running = fst (connectToServer 2 (\<lambda>i. Opened) allocated)"





text \<open>An allocation over HTTPS that succeeds, stand-ins for \<open>JSON.parse\<close> and \<open>new URL\<close>
  that know its body and its URL, and a pool setup on two processors whose second handshake
  fails.\<close>

definition example_body :: jsstring where
  \<open>example_body = ascii ''{"id":1,"tunnel_id":"abc","url":"http://x.example/"}''\<close>

definition example_response :: CreateTunnelResponse where
  "example_response =
     \<lparr> r_id = 1, r_tunnel_id = ascii ''abc'', r_url = ascii ''http://x.example/'',
       r_created_at = [], r_connected_at = None, r_completed_at = None,
       r_playwright_result = None \<rparr>"

definition http_x_example :: URL where
  "http_x_example =
     \<lparr> u_scheme = ascii ''http'', u_username = [], u_password = [],
       u_host = Some (ascii ''x.example''), u_port = None, u_path = ascii ''/'',
       u_query = None, u_fragment = None \<rparr>"

definition example_parse_response :: "jsstring \<Rightarrow> CreateTunnelResponse option" where
  "example_parse_response d = (if d = example_body then Some example_response else None)"

definition example_URL_parse :: "jsstring \<Rightarrow> URL option" where
  "example_URL_parse s = (if s = ascii ''http://x.example/'' then Some http_x_example else None)"

definition x_info :: TunnelInfo where
  "x_info =
     \<lparr> info_id = ascii ''abc'', info_url = ascii ''https://x.example/'',
       remoteHost = ascii ''abbreviated.ai'', remotePort = 443 \<rparr>"

definition flaky :: "nat \<Rightarrow> handshake" where
  "flaky i = (if i = 0 then Opened else Errored (ascii ''socket hang up''))"

definition failed_open :: "Tunnel \<times> unit promise" where
  "failed_open =
     open_tunnel example_parse_response example_URL_parse ProbeResponse
       (AllocResponse (Some 200) example_body) 2 flaky (constructor example_options)"

text \<open>An error page.\<close>

definition html_body :: jsstring where
  "html_body = ascii ''<html><h1>502  Bad'' @ [10, 9] @ ascii ''Gateway</h1> </html>''"








definition fresh_response :: Http2ServerResponse where
  "fresh_response =
     \<lparr> headersSent = False, statusCode = 200, res_headers = Map.empty, res_body = [],
       res_ending = False, res_closed = False \<rparr>"

definition half_sent :: Exchange where
  "half_sent =
     \<lparr> res = \<lparr> headersSent = True, statusCode = 200, res_headers = Map.empty,
               res_body = [ascii ''partial''], res_ending = False, res_closed = False \<rparr>,
       console = [] \<rparr>"

definition local_socket :: WebSocket where
  "local_socket =
     \<lparr> ws_address = ascii ''ws://localhost:3000/socket'', ws_headers = [],
       readyState = OPEN, ws_sent = [] \<rparr>"

definition example_inbound :: "inbound list" where
  "example_inbound = [Data (ascii ''a''), Becomes CLOSED, Data (ascii ''b''), End]"

section \<open>Properties\<close>

subsection \<open>The pool\<close>

lemma after_opened_0: "after_opened info 0 t = t"
  by (simp add: after_opened_def)

lemma after_opened_Suc:
  "after_opened info (Suc n) t =
     after_opened info n
       (t\<lparr>sockets := sockets t @ [opened_socket info (opts t)],
          wsConnections := wsConnections t @ [length (sockets t)]\<rparr>)"
  by (simp add: after_opened_def replicate_append_same upt_conv_Cons del: upt_Suc)

lemma connect_loop_opened_prefix:
  "\<forall>i\<in>set is1. hs i = Opened \<Longrightarrow>
   connect_loop hs info (is1 @ is2) streams t =
     connect_loop hs info is2
       (streams @ map (createWebSocketStream info)
                    [length (sockets t)..<length (sockets t) + length is1])
       (after_opened info (length is1) t)"
proof (induction is1 arbitrary: streams t)
  case Nil
  then show ?case by (simp add: after_opened_0)
next
  case (Cons i is1)
  have hi: "hs i = Opened" using Cons.prems by simp
  have rest: "\<forall>j\<in>set is1. hs j = Opened" using Cons.prems by simp
  show ?case
    by (simp add: hi Let_def Cons.IH [OF rest] after_opened_Suc opened_socket_def upt_conv_Cons
        del: upt_Suc)
qed

lemma closed_form_all_opened:
  assumes info: "tunnelInfo t = Some info" and ok: "\<forall>i<min p 16. hs i = Opened"
  shows "connectToServer p hs t =
     ((after_opened info (min p 16) t)
        \<lparr>h2Handler :=
           Some \<lparr> h_localHost = o_localHost (opts t), h_localPort = o_port (opts t),
                  h_localHttps = (case o_localHttps (opts t) of None \<Rightarrow> False | Some b \<Rightarrow> b),
                  h_streams = map (createWebSocketStream info)
                                [length (sockets t)..<length (sockets t) + min p 16] \<rparr>,
         trace := trace t @ [H2Start]\<rparr>,
      Resolved ())"
proof -
  have all: "\<forall>i\<in>set [0..<min p 16]. hs i = Opened" using ok by simp
  have "connect_loop hs info ([0..<min p 16] @ []) [] t =
          connect_loop hs info []
            ([] @ map (createWebSocketStream info)
                    [length (sockets t)..<length (sockets t) + length [0..<min p 16]])
            (after_opened info (length [0..<min p 16]) t)"
    by (rule connect_loop_opened_prefix [OF all])
  then have loop: "connect_loop hs info [0..<min p 16] [] t =
      (after_opened info (min p 16) t,
       Resolved (map (createWebSocketStream info)
                   [length (sockets t)..<length (sockets t) + min p 16]))"
    by simp
  show ?thesis
    unfolding connectToServer_def
    by (simp add: info Let_def loop after_opened_def)
qed

lemma closed_form_error_at:
  assumes info: "tunnelInfo t = Some info" and k: "k < min p 16"
    and ok: "\<forall>i<k. hs i = Opened" and bad: "hs k = Errored msg"
  shows "connectToServer p hs t =
     (t\<lparr>sockets := sockets t @ replicate k (opened_socket info (opts t))
                      @ [failed_socket info (opts t)],
        wsConnections := wsConnections t @ [length (sockets t)..<length (sockets t) + k]\<rparr>,
      Rejected (handshake_error info msg))"
proof -
  have all: "\<forall>i\<in>set [0..<k]. hs i = Opened" using ok by simp
  have split: "[0..<min p 16] = [0..<k] @ k # [Suc k..<min p 16]"
    using k by (metis upt_add_eq_append upt_conv_Cons le_add_diff_inverse less_imp_le_nat zero_le)
  have "connect_loop hs info ([0..<k] @ k # [Suc k..<min p 16]) [] t =
          connect_loop hs info (k # [Suc k..<min p 16])
            ([] @ map (createWebSocketStream info)
                    [length (sockets t)..<length (sockets t) + length [0..<k]])
            (after_opened info (length [0..<k]) t)"
    by (rule connect_loop_opened_prefix [OF all])
  then have loop: "connect_loop hs info [0..<min p 16] [] t =
      (t\<lparr>sockets := sockets t @ replicate k (opened_socket info (opts t))
                      @ [failed_socket info (opts t)],
        wsConnections := wsConnections t @ [length (sockets t)..<length (sockets t) + k]\<rparr>,
       Rejected (handshake_error info msg))"
    by (simp add: split bad Let_def after_opened_def failed_socket_def list_update_append)
  show ?thesis
    unfolding connectToServer_def
    by (simp add: info Let_def loop)
qed


text \<open>
  C6. For every number \<open>p\<close> of detected processors, when the handshakes succeed,
  \<open>connectToServer\<close> returns normally having created exactly \<open>min p 16\<close> WebSockets, all of them
  open and all of them appended to the pool, and hands as many streams to the HTTP/2
  handler.
\<close>

theorem pool_opens_min_cpus_16:
  assumes "tunnelInfo t = Some info" and "\<forall>i<min p 16. hs i = Opened"
  shows "snd (connectToServer p hs t) = Resolved ()
     \<and> wsConnections (fst (connectToServer p hs t)) =
         wsConnections t @ [length (sockets t)..<length (sockets t) + min p 16]
     \<and> length (sockets (fst (connectToServer p hs t))) = length (sockets t) + min p 16
     \<and> (\<forall>k<min p 16.
          readyState (sockets (fst (connectToServer p hs t)) ! (length (sockets t) + k)) = OPEN)
     \<and> map_option (\<lambda>h. length (h_streams h)) (h2Handler (fst (connectToServer p hs t)))
         = Some (min p 16)"
  by (simp add: closed_form_all_opened [OF assms] after_opened_def nth_append opened_socket_def)

text \<open>For 1, 4 and 32 processors the pool has 1, 4 and 16 channels.\<close>

theorem pool_opens_min_cpus_16_witness:
  "length (wsConnections (fst (connectToServer 1 (\<lambda>i. Opened) allocated))) = 1
   \<and> length (wsConnections (fst (connectToServer 4 (\<lambda>i. Opened) allocated))) = 4
   \<and> length (wsConnections (fst (connectToServer 32 (\<lambda>i. Opened) allocated))) = 16"
proof -
  have i: "tunnelInfo allocated = Some example_info" by (simp add: allocated_def)
  have w: "wsConnections allocated = []" "sockets allocated = []"
    by (simp_all add: allocated_def constructor_def)
  show ?thesis
    using pool_opens_min_cpus_16 [of allocated example_info 1 "\<lambda>i. Opened"]
          pool_opens_min_cpus_16 [of allocated example_info 4 "\<lambda>i. Opened"]
          pool_opens_min_cpus_16 [of allocated example_info 32 "\<lambda>i. Opened"]
    by (simp add: i w)
qed

subsection \<open>close\<close>







subsection \<open>Control frames\<close>












subsection \<open>A handshake that fails\<close>

lemma example_allocation:
  "getTunnelInfo example_parse_response example_URL_parse (opts (constructor example_options))
     (AllocResponse (Some 200) example_body) = Resolved x_info"
  by (simp add: getTunnelInfo_def on_response_end_def example_parse_response_def
      example_response_def example_URL_parse_def http_x_example_def x_info_def
      constructor_def example_options_def DEFAULT_SERVER_HOST_def DEFAULT_SERVER_PORT_def
      api_scheme_def rewrite_scheme_def set_protocol_def is_special_def default_port_def
      includes_credentials_def port_getter_def href_def ascii_def)

lemma digits_443: "digits 443 = ascii ''443''"
  by code_simp

lemma failed_open_eq:
  "failed_open =
     (emit (Error_ev (handshake_error x_info (ascii ''socket hang up'')))
        ((constructor example_options)
           \<lparr>tunnelInfo := Some x_info, url := Some (info_url x_info),
            tunnelId := Some (info_id x_info),
            sockets := [opened_socket x_info (opts (constructor example_options)),
                        failed_socket x_info (opts (constructor example_options))],
            wsConnections := [0]\<rparr>),
      Rejected (handshake_error x_info (ascii ''socket hang up'')))"
proof -
  let ?t1 = "(constructor example_options)\<lparr>tunnelInfo := Some x_info,
               url := Some (info_url x_info), tunnelId := Some (info_id x_info)\<rparr>"
  have i: "tunnelInfo ?t1 = Some x_info" by simp
  have k: "(1::nat) < min 2 16" by simp
  have ok: "\<forall>i<(1::nat). flaky i = Opened" by (simp add: flaky_def)
  have bad: "flaky 1 = Errored (ascii ''socket hang up'')" by (simp add: flaky_def)
  have c: "sockets (constructor example_options) = []"
    "wsConnections (constructor example_options) = []"
    by (simp_all add: constructor_def)
  have cf: "connectToServer 2 flaky ?t1 =
      (?t1\<lparr>sockets := [opened_socket x_info (opts (constructor example_options)),
                         failed_socket x_info (opts (constructor example_options))],
           wsConnections := [0]\<rparr>,
       Rejected (handshake_error x_info (ascii ''socket hang up'')))"
    using closed_form_error_at [OF i k ok bad] by (simp add: c)
  have p: "checkLocalServer (opts (constructor example_options)) ProbeResponse = Resolved ()"
    by (simp add: checkLocalServer_def)
  show ?thesis
    unfolding failed_open_def open_tunnel_def
    by (simp add: p example_allocation Let_def cf)
qed

lemma example_handshake_error:
  "handshake_error x_info (ascii ''socket hang up'') =
     Error (ascii ''WebSocket connection failed: socket hang up (abbreviated.ai:443)'')"
  by (simp add: handshake_error_def x_info_def digits_443 ascii_def)

text \<open>C2 as stated fails: with two channels to open and the second handshake failing,
  \<open>open\<close> rejects while the first channel is still in the pool, still open, and no
  \<open>close\<close> was called on it.\<close>

theorem one_failure_leaves_pool_open:
  "snd failed_open =
     Rejected (Error (ascii ''WebSocket connection failed: socket hang up (abbreviated.ai:443)''))
   \<and> wsConnections (fst failed_open) = [0]
   \<and> readyState (sockets (fst failed_open) ! 0) = OPEN
   \<and> WsClose 0 \<notin> set (trace (fst failed_open))"
  by (simp add: failed_open_eq example_handshake_error emit_def opened_socket_def constructor_def)

text \<open>
  C2, as the code has it. When the probe and the allocation succeed and the handshake of
  channel \<open>k\<close> is the first to fail, \<open>open\<close> rejects with an error that names the remote
  host and port and emits it as the \<open>error\<close> event; the HTTP/2 handler is not created or
  started, and no further socket is created. Nothing is undone: the \<open>k\<close> channels opened
  before stay in the pool, open, and the trace holds no call of \<open>close\<close> on a socket.
\<close>

theorem setup_failure_leaves_channels:
  assumes "checkLocalServer (opts t) pr = Resolved ()"
    and "getTunnelInfo P U (opts t) al = Resolved info"
    and "k < min p 16" and "\<forall>i<k. hs i = Opened" and "hs k = Errored msg"
  shows "snd (open_tunnel P U pr al p hs t) =
           Rejected (Error (ascii ''WebSocket connection failed: '' @ msg @ ascii '' (''
             @ remoteHost info @ ascii '':'' @ digits (remotePort info) @ ascii '')''))
     \<and> h2Handler (fst (open_tunnel P U pr al p hs t)) = h2Handler t
     \<and> trace (fst (open_tunnel P U pr al p hs t)) =
         trace t @ [Emit (Error_ev (handshake_error info msg))]
     \<and> length (sockets (fst (open_tunnel P U pr al p hs t))) = length (sockets t) + k + 1
     \<and> wsConnections (fst (open_tunnel P U pr al p hs t)) =
         wsConnections t @ [length (sockets t)..<length (sockets t) + k]
     \<and> (\<forall>j<k. readyState (sockets (fst (open_tunnel P U pr al p hs t)) ! (length (sockets t) + j)) = OPEN)"
proof -
  let ?t1 = "t\<lparr>tunnelInfo := Some info, url := Some (info_url info),
                tunnelId := Some (info_id info)\<rparr>"
  have i: "tunnelInfo ?t1 = Some info" by simp
  note cf = closed_form_error_at [OF i assms(3) assms(4) assms(5)]
  show ?thesis
    unfolding open_tunnel_def
    by (simp add: assms(1) assms(2) Let_def cf emit_def handshake_error_def nth_append
        opened_socket_def)
qed

theorem setup_failure_leaves_channels_witness:
  "snd failed_open = Rejected (handshake_error x_info (ascii ''socket hang up''))
   \<and> h2Handler (fst failed_open) = None
   \<and> trace (fst failed_open) = [Emit (Error_ev (handshake_error x_info (ascii ''socket hang up'')))]
   \<and> length (sockets (fst failed_open)) = 2"
proof -
  have p: "checkLocalServer (opts (constructor example_options)) ProbeResponse = Resolved ()"
    by (simp add: checkLocalServer_def)
  have k: "(1::nat) < min 2 16" by simp
  have ok: "\<forall>i<(1::nat). flaky i = Opened" by (simp add: flaky_def)
  have bad: "flaky 1 = Errored (ascii ''socket hang up'')" by (simp add: flaky_def)
  have c: "h2Handler (constructor example_options) = None"
    "trace (constructor example_options) = []" "sockets (constructor example_options) = []"
    by (simp_all add: constructor_def)
  show ?thesis
    using setup_failure_leaves_channels [OF p example_allocation k ok bad]
    by (simp add: failed_open_def c handshake_error_def)
qed

subsection \<open>The Authorization header\<close>

lemma connect_loop_sockets:
  "\<exists>new. sockets (fst (connect_loop hs info is streams t)) = sockets t @ new
     \<and> opts (fst (connect_loop hs info is streams t)) = opts t
     \<and> (\<forall>ws\<in>set new. ws_headers ws = handshake_headers (opts t))"
proof (induction "is" arbitrary: streams t)
  case Nil
  then show ?case by simp
next
  case (Cons i "is")
  show ?case
  proof (cases "hs i")
    case Opened
    let ?ws = "\<lparr> ws_address = ws_connect_url info, ws_headers = handshake_headers (opts t),
                  readyState = OPEN, ws_sent = [] \<rparr>"
    let ?t2 = "t\<lparr>sockets := sockets t @ [?ws], wsConnections := wsConnections t @ [length (sockets t)]\<rparr>"
    have step: "connect_loop hs info (i # is) streams t =
                connect_loop hs info is (streams @ [createWebSocketStream info (length (sockets t))]) ?t2"
      by (simp add: Opened Let_def)
    from Cons.IH [of "streams @ [createWebSocketStream info (length (sockets t))]" ?t2]
    obtain new where n: "sockets (fst (connect_loop hs info is (streams @ [createWebSocketStream info (length (sockets t))]) ?t2)) = sockets ?t2 @ new"
      "opts (fst (connect_loop hs info is (streams @ [createWebSocketStream info (length (sockets t))]) ?t2)) = opts ?t2"
      "\<forall>ws\<in>set new. ws_headers ws = handshake_headers (opts ?t2)"
      by blast
    show ?thesis
      unfolding step using n by (intro exI [of _ "?ws # new"]) simp
  next
    case (Errored msg)
    show ?thesis
      by (rule exI [of _ "[\<lparr> ws_address = ws_connect_url info, ws_headers = handshake_headers (opts t),
                  readyState = CLOSED, ws_sent = [] \<rparr>]"]) (simp add: Errored Let_def)
  next
    case Pending
    show ?thesis
      by (rule exI [of _ "[\<lparr> ws_address = ws_connect_url info, ws_headers = handshake_headers (opts t),
                  readyState = CONNECTING, ws_sent = [] \<rparr>]"]) (simp add: Pending Let_def)
  qed
qed

lemma connectToServer_sockets:
  "\<exists>new. sockets (fst (connectToServer p hs t)) = sockets t @ new
     \<and> (\<forall>ws\<in>set new. ws_headers ws = handshake_headers (opts t))"
proof (cases "tunnelInfo t")
  case None
  then show ?thesis by (simp add: connectToServer_def)
next
  case (Some info)
  obtain t1 r where l: "connect_loop hs info [0..<min p 16] [] t = (t1, r)"
    by (cases "connect_loop hs info [0..<min p 16] [] t") auto
  from connect_loop_sockets [of hs info "[0..<min p 16]" "[]" t] l
  obtain new where n: "sockets t1 = sockets t @ new"
    "\<forall>ws\<in>set new. ws_headers ws = handshake_headers (opts t)"
    by auto
  have "sockets (fst (connectToServer p hs t)) = sockets t1"
    by (cases r) (simp_all add: connectToServer_def Some Let_def l)
  then show ?thesis using n by auto
qed

text \<open>
  C9. The headers of a handshake are exactly one Authorization header, whose value is
  the word Bearer, a space and the token as a template literal prints it; every socket
  that \<open>connectToServer\<close> creates carries it, whatever the handshakes do. With no token
  configured the value is \<open>Bearer undefined\<close>, while the allocation request then has the
  Content-Type header only.
\<close>

theorem handshake_always_authorization:
  "handshake_headers os = [(ascii ''Authorization'', ascii ''Bearer '' @ template (o_apiToken os))]
   \<and> (\<forall>ws \<in> set (drop (length (sockets t)) (sockets (fst (connectToServer p hs t)))).
         map_of (ws_headers ws) (ascii ''Authorization'')
           = Some (ascii ''Bearer '' @ template (o_apiToken (opts t))))
   \<and> (o_apiToken os = None \<longrightarrow>
         map_of (handshake_headers os) (ascii ''Authorization'') = Some (ascii ''Bearer undefined'')
         \<and> map_of (allocation_headers os) (ascii ''Authorization'') = None
         \<and> allocation_headers os = [(ascii ''Content-Type'', ascii ''application/json'')])"
proof -
  obtain new where n: "sockets (fst (connectToServer p hs t)) = sockets t @ new"
    "\<forall>ws\<in>set new. ws_headers ws = handshake_headers (opts t)"
    using connectToServer_sockets by blast
  have 2: "\<forall>ws \<in> set (drop (length (sockets t)) (sockets (fst (connectToServer p hs t)))).
         map_of (ws_headers ws) (ascii ''Authorization'')
           = Some (ascii ''Bearer '' @ template (o_apiToken (opts t)))"
    using n by (simp add: handshake_headers_def)
  show ?thesis
    using 2 by (simp add: handshake_headers_def allocation_headers_def truthy_def template_def ascii_def)
qed

theorem handshake_always_authorization_witness:
  "o_apiToken (opts allocated) = None
   \<and> map ws_headers (sockets (fst (connectToServer 2 flaky allocated)))
       = [[(ascii ''Authorization'', ascii ''Bearer undefined'')],
          [(ascii ''Authorization'', ascii ''Bearer undefined'')]]
   \<and> allocation_headers (opts allocated) = [(ascii ''Content-Type'', ascii ''application/json'')]"
proof -
  have tok: "o_apiToken (opts allocated) = None"
    by (simp add: allocated_def constructor_def example_options_def)
  have s: "sockets allocated = []" by (simp add: allocated_def constructor_def)
  have i: "tunnelInfo allocated = Some example_info" by (simp add: allocated_def)
  have k: "(1::nat) < min 2 16" by simp
  have ok: "\<forall>i<(1::nat). flaky i = Opened" by (simp add: flaky_def)
  have bad: "flaky 1 = Errored (ascii ''socket hang up'')" by (simp add: flaky_def)
  have l: "length (sockets (fst (connectToServer 2 flaky allocated))) = 2"
    by (simp add: closed_form_error_at [OF i k ok bad] s)
  from handshake_always_authorization [of "opts allocated" allocated 2 flaky] tok s
  have "handshake_headers (opts allocated) = [(ascii ''Authorization'', ascii ''Bearer undefined'')]"
    and "allocation_headers (opts allocated) = [(ascii ''Content-Type'', ascii ''application/json'')]"
    by (simp_all add: template_def ascii_def)
  then show ?thesis
    by (simp add: tok closed_form_error_at [OF i k ok bad] s opened_socket_def failed_socket_def)
qed

subsection \<open>The allocation response\<close>

lemma set_strip_tags: "set (strip_tags s) \<subseteq> set s"
proof (induction s rule: strip_tags.induct)
  case 1
  then show ?case by simp
next
  case (2 c cs)
  have "set (tl ys) \<subseteq> set ys" for ys :: "nat list" by (cases ys) auto
  moreover have "set (dropWhile (\<lambda>x. x \<noteq> 62) cs) \<subseteq> set cs"
    by (meson set_dropWhileD subsetI)
  ultimately have "set (tl (dropWhile (\<lambda>x. x \<noteq> 62) cs)) \<subseteq> set cs" by blast
  then show ?case using 2 by auto
qed

lemma takeWhile_empty_iff: "takeWhile P xs = [] \<longleftrightarrow> (xs = [] \<or> \<not> P (hd xs))"
  by (cases xs) auto

lemma strip_tags_no_tag: "\<not> has_tag (strip_tags s)"
proof (induction s rule: strip_tags.induct)
  case 1
  then show ?case by simp
next
  case (2 c cs)
  show ?case
  proof (cases "c = 60 \<and> takeWhile (\<lambda>x. x \<noteq> 62) cs \<noteq> [] \<and> dropWhile (\<lambda>x. x \<noteq> 62) cs \<noteq> []")
    case True
    then show ?thesis using 2 by simp
  next
    case False
    have st: "strip_tags (c # cs) = c # strip_tags cs" using False by auto
    have ih: "\<not> has_tag (strip_tags cs)" using 2 False by simp
    have "\<not> (c = 60 \<and> takeWhile (\<lambda>x. x \<noteq> 62) (strip_tags cs) \<noteq> []
              \<and> dropWhile (\<lambda>x. x \<noteq> 62) (strip_tags cs) \<noteq> [])"
    proof
      assume a: "c = 60 \<and> takeWhile (\<lambda>x. x \<noteq> 62) (strip_tags cs) \<noteq> []
              \<and> dropWhile (\<lambda>x. x \<noteq> 62) (strip_tags cs) \<noteq> []"
      then have "62 \<in> set (strip_tags cs)" by auto
      then have in_cs: "62 \<in> set cs" using set_strip_tags by blast
      then have dw: "dropWhile (\<lambda>x. x \<noteq> 62) cs \<noteq> []" by auto
      with False a have tw: "takeWhile (\<lambda>x. x \<noteq> 62) cs = []" by simp
      from in_cs tw obtain cs' where cs: "cs = 62 # cs'"
        by (cases cs) (auto split: if_splits)
      have "strip_tags cs = 62 # strip_tags cs'" by (simp add: cs)
      with a show False by simp
    qed
    with ih show ?thesis unfolding st by simp
  qed
qed

lemma has_tag_iff:
  "has_tag s \<longleftrightarrow> (\<exists>a x m b. s = a @ 60 # x # m @ 62 # b \<and> x \<noteq> 62)"
proof
  show "has_tag s \<Longrightarrow> \<exists>a x m b. s = a @ 60 # x # m @ 62 # b \<and> x \<noteq> 62"
  proof (induction s)
    case Nil
    then show ?case by simp
  next
    case (Cons c cs)
    show ?case
    proof (cases "has_tag cs")
      case True
      then obtain a x m b where "cs = a @ 60 # x # m @ 62 # b" "x \<noteq> 62"
        using Cons.IH by blast
      then have "c # cs = (c # a) @ 60 # x # m @ 62 # b \<and> x \<noteq> 62" by simp
      then show ?thesis by blast
    next
      case False
      then have h: "c = 60" "takeWhile (\<lambda>x. x \<noteq> 62) cs \<noteq> []" "dropWhile (\<lambda>x. x \<noteq> 62) cs \<noteq> []"
        using Cons.prems by auto
      from h(2) obtain x cs' where cs: "cs = x # cs'" "x \<noteq> 62"
        by (cases cs) (auto split: if_splits)
      from h(3) have "62 \<in> set cs" by auto
      then have "62 \<in> set cs'" using cs by auto
      then obtain m b where "cs' = m @ 62 # b" by (meson split_list)
      then have "c # cs = [] @ 60 # x # m @ 62 # b \<and> x \<noteq> 62" using h(1) cs by simp
      then show ?thesis by blast
    qed
  qed
next
  assume "\<exists>a x m b. s = a @ 60 # x # m @ 62 # b \<and> x \<noteq> 62"
  then obtain a x m b where s: "s = a @ 60 # x # m @ 62 # b" and x: "x \<noteq> 62" by blast
  have "has_tag (a @ 60 # x # m @ 62 # b)"
  proof (induction a)
    case Nil
    have "dropWhile (\<lambda>x. x \<noteq> 62) (m @ 62 # b) \<noteq> []" by simp
    then show ?case using x by simp
  next
    case (Cons c a)
    then show ?case by simp
  qed
  then show "has_tag s" using s by simp
qed

lemma has_tag_sublist: "has_tag m \<Longrightarrow> has_tag (a @ m @ b)"
proof -
  assume "has_tag m"
  then obtain a' x m' b' where "m = a' @ 60 # x # m' @ 62 # b'" "x \<noteq> 62"
    using has_tag_iff by blast
  then have "a @ m @ b = (a @ a') @ 60 # x # m' @ 62 # (b' @ b) \<and> x \<noteq> 62" by simp
  then show ?thesis using has_tag_iff by blast
qed

lemma not_space_60: "\<not> is_space 60" and not_space_62: "\<not> is_space 62" and space_32: "is_space 32"
  by (simp_all add: is_space_def)

lemma set_collapse_ws: "set (collapse_ws s) \<subseteq> insert 32 (set s)"
proof (induction s rule: collapse_ws.induct)
  case 1
  then show ?case by simp
next
  case (2 c cs)
  have "set (dropWhile is_space cs) \<subseteq> set cs" by (meson set_dropWhileD subsetI)
  then show ?case using 2 by auto
qed

lemma collapse_ws_split:
  "\<not> is_space c \<Longrightarrow> collapse_ws s = a' @ c # r' \<Longrightarrow> \<exists>a r. s = a @ c # r \<and> collapse_ws r = r'"
proof (induction s arbitrary: a' rule: collapse_ws.induct)
  case 1
  then show ?case by simp
next
  case (2 d ds)
  show ?case
  proof (cases "is_space d")
    case True
    then have eq: "32 # collapse_ws (dropWhile is_space ds) = a' @ c # r'"
      using 2 by simp
    have "c \<noteq> 32" using "2.prems"(1) space_32 by auto
    then obtain a'' where a': "a' = 32 # a''" using eq by (cases a') auto
    then have "collapse_ws (dropWhile is_space ds) = a'' @ c # r'" using eq by simp
    from "2.IH"(1) [OF True "2.prems"(1) this]
    obtain a r where "dropWhile is_space ds = a @ c # r" "collapse_ws r = r'" by blast
    then have "d # ds = (d # takeWhile is_space ds @ a) @ c # r \<and> collapse_ws r = r'"
      by (metis append_Cons append_assoc takeWhile_dropWhile_id)
    then show ?thesis by blast
  next
    case False
    then have eq: "d # collapse_ws ds = a' @ c # r'" using 2 by simp
    show ?thesis
    proof (cases a')
      case Nil
      then have "d # ds = [] @ c # ds \<and> collapse_ws ds = r'" using eq by simp
      then show ?thesis by blast
    next
      case (Cons e a'')
      then have "collapse_ws ds = a'' @ c # r'" using eq by simp
      from "2.IH"(2) [OF False "2.prems"(1) this]
      obtain a r where "ds = a @ c # r" "collapse_ws r = r'" by blast
      then have "d # ds = (d # a) @ c # r \<and> collapse_ws r = r'" by simp
      then show ?thesis by blast
    qed
  qed
qed

lemma collapse_ws_has_tag: "has_tag (collapse_ws s) \<Longrightarrow> has_tag s"
proof -
  assume "has_tag (collapse_ws s)"
  then obtain a' x m b where c: "collapse_ws s = a' @ 60 # x # m @ 62 # b" and x: "x \<noteq> 62"
    using has_tag_iff by blast
  from collapse_ws_split [OF not_space_60 c]
  obtain a r where s: "s = a @ 60 # r" and r: "collapse_ws r = x # m @ 62 # b" by blast
  have "62 \<in> set (collapse_ws r)" using r by simp
  then have in_r: "62 \<in> set r" using set_collapse_ws [of r] by auto
  then obtain y r0 where r0: "r = y # r0" by (cases r) auto
  have y: "y \<noteq> 62"
  proof
    assume "y = 62"
    then have "collapse_ws r = 62 # collapse_ws r0" using r0 not_space_62 by simp
    with r x show False by simp
  qed
  then have "62 \<in> set r0" using in_r r0 by auto
  then obtain m2 b2 where "r0 = m2 @ 62 # b2" by (meson split_list)
  then have "s = a @ 60 # y # m2 @ 62 # b2 \<and> y \<noteq> 62" using s r0 y by simp
  then show ?thesis using has_tag_iff by blast
qed

lemma trim_sublist: "\<exists>a b. s = a @ trim s @ b"
proof -
  let ?z = "dropWhile is_space s"
  have 1: "s = takeWhile is_space s @ ?z" by simp
  have "rev ?z = takeWhile is_space (rev ?z) @ dropWhile is_space (rev ?z)" by simp
  then have "?z = rev (dropWhile is_space (rev ?z)) @ rev (takeWhile is_space (rev ?z))"
    by (metis rev_append rev_rev_ident)
  then have "s = takeWhile is_space s @ trim s @ rev (takeWhile is_space (rev ?z))"
    using 1 by (simp add: trim_def)
  then show ?thesis by blast
qed

lemma plain_no_tag: "\<not> has_tag (take n (plain data))"
proof
  assume a: "has_tag (take n (plain data))"
  have "plain data = [] @ take n (plain data) @ drop n (plain data)" by simp
  then have "has_tag (plain data)" using has_tag_sublist [OF a] by metis
  moreover obtain p q where "collapse_ws (strip_tags data) = p @ plain data @ q"
    using trim_sublist [of "collapse_ws (strip_tags data)"] by (auto simp: plain_def)
  ultimately have "has_tag (collapse_ws (strip_tags data))"
    using has_tag_sublist by metis
  then show False using collapse_ws_has_tag strip_tags_no_tag by blast
qed

lemma collapse_ws_only_space: "c \<in> set (collapse_ws s) \<Longrightarrow> is_space c \<Longrightarrow> c = 32"
proof (induction s rule: collapse_ws.induct)
  case 1
  then show ?case by simp
next
  case (2 d ds)
  then show ?case by (cases "is_space d") auto
qed

lemma collapse_ws_Nil: "collapse_ws s = [] \<longleftrightarrow> s = []"
  by (cases s) auto

lemma hd_collapse_ws: "s \<noteq> [] \<Longrightarrow> is_space (hd (collapse_ws s)) = is_space (hd s)"
  by (cases s) (auto simp: space_32)

lemma collapse_ws_no_runs:
  "successively (\<lambda>a b. \<not> (is_space a \<and> is_space b)) (collapse_ws s)"
proof (induction s rule: collapse_ws.induct)
  case 1
  then show ?case by simp
next
  case (2 d ds)
  show ?case
  proof (cases "is_space d")
    case True
    let ?r = "dropWhile is_space ds"
    have "?r \<noteq> [] \<Longrightarrow> \<not> is_space (hd (collapse_ws ?r))"
      using hd_collapse_ws [of ?r] hd_dropWhile [of is_space ds] by simp
    then show ?thesis
      using 2 True by (auto simp: successively_Cons collapse_ws_Nil)
  next
    case False
    then show ?thesis using 2 by (auto simp: successively_Cons)
  qed
qed

lemma trim_ends: "trim s \<noteq> [] \<Longrightarrow> \<not> is_space (hd (trim s)) \<and> \<not> is_space (last (trim s))"
proof -
  assume ne: "trim s \<noteq> []"
  let ?z = "dropWhile is_space s"
  let ?y = "dropWhile is_space (rev ?z)"
  have t: "trim s = rev ?y" by (simp add: trim_def)
  have y: "?y \<noteq> []" using ne t by simp
  then have z: "?z \<noteq> []" by (metis dropWhile.simps(1) rev.simps(1))
  have 1: "\<not> is_space (hd ?y)" using y hd_dropWhile by blast
  have "last ?y = last (rev ?z)"
    using y by (metis last_appendR takeWhile_dropWhile_id)
  then have 2: "\<not> is_space (last ?y)"
    using z hd_dropWhile [of is_space s] by (simp add: last_rev)
  show ?thesis using 1 2 y by (simp add: t hd_rev last_rev)
qed

lemma plain_spaces:
  "(\<forall>c \<in> set (plain data). is_space c \<longrightarrow> c = 32)
   \<and> successively (\<lambda>a b. \<not> (is_space a \<and> is_space b)) (plain data)
   \<and> (plain data \<noteq> [] \<longrightarrow> \<not> is_space (hd (plain data)) \<and> \<not> is_space (last (plain data)))"
proof -
  obtain p q where pq: "collapse_ws (strip_tags data) = p @ plain data @ q"
    using trim_sublist [of "collapse_ws (strip_tags data)"] by (auto simp: plain_def)
  have "set (plain data) \<subseteq> set (collapse_ws (strip_tags data))" using pq by (metis Un_iff set_append subsetI)
  then have 1: "\<forall>c \<in> set (plain data). is_space c \<longrightarrow> c = 32"
    using collapse_ws_only_space by blast
  have "successively (\<lambda>a b. \<not> (is_space a \<and> is_space b)) (p @ plain data @ q)"
    using collapse_ws_no_runs [of "strip_tags data"] pq by simp
  then have 2: "successively (\<lambda>a b. \<not> (is_space a \<and> is_space b)) (plain data)"
    by (simp add: successively_append_iff)
  show ?thesis using 1 2 trim_ends [of "collapse_ws (strip_tags data)"] by (simp add: plain_def)
qed

text \<open>
  C3, as the code has it. Every status other than 200 (a missing status counts as 0)
  rejects with \<open>Failed to create tunnel:\<close> and a reason: for 502, 503 and 504 that the
  server is temporarily unavailable, with the status; for 401 and 403 that authentication
  failed; for 429 that the client is rate limited; for anything else \<open>HTTP\<close> and the
  status, followed, unless it is empty, by the first 120 code units of the body after
  stripping tags, collapsing white space and trimming. That excerpt has at most 120 code
  units and no tag in it; the stripped text has no white space but single spaces between
  other code units. Only the status 200 is a success: then the body is parsed, and the
  TunnelInfo is built from it unless the body or its URL does not parse.
\<close>

theorem allocation_status_classes:
  "(st \<noteq> Some 200 \<longrightarrow>
      on_response_end P U os st data =
        Inl (Error (ascii ''Failed to create tunnel: ''
                    @ reason (case st of None \<Rightarrow> 0 | Some c \<Rightarrow> c) data)))
   \<and> (status \<in> {502, 503, 504} \<longrightarrow>
        reason status data =
          ascii ''Tunnel server is temporarily unavailable (HTTP '' @ digits status @ ascii '')''
        \<and> sublist (ascii ''temporarily unavailable'') (reason status data)
        \<and> sublist (digits status) (reason status data))
   \<and> (status \<in> {401, 403} \<longrightarrow>
        reason status data =
          ascii ''Authentication failed (HTTP '' @ digits status @ ascii '') '' @ [8212]
          @ ascii '' check your API token'')
   \<and> (status = 429 \<longrightarrow>
        reason status data =
          ascii ''Rate limited by tunnel server (HTTP 429) '' @ [8212]
          @ ascii '' try again later'')
   \<and> (status \<notin> {502, 503, 504, 401, 403, 429} \<longrightarrow>
        reason status data =
          ascii ''HTTP '' @ digits status
          @ (if plain data = [] then [] else ascii '': '' @ take 120 (plain data)))
   \<and> plain data = trim (collapse_ws (strip_tags data))
   \<and> length (take 120 (plain data)) \<le> 120
   \<and> \<not> has_tag (take 120 (plain data))
   \<and> (\<forall>c \<in> set (plain data). is_space c \<longrightarrow> c = 32)
   \<and> successively (\<lambda>a b. \<not> (is_space a \<and> is_space b)) (plain data)
   \<and> (plain data \<noteq> [] \<longrightarrow> \<not> is_space (hd (plain data)) \<and> \<not> is_space (last (plain data)))
   \<and> on_response_end P U os (Some 200) data =
       (case P data of
          None \<Rightarrow> Inl (Error (ascii ''Failed to parse tunnel response: '' @ data))
        | Some response \<Rightarrow>
            (case U (r_url response) of
               None \<Rightarrow> Inl (Error (ascii ''Failed to parse tunnel response: '' @ data))
             | Some parsedUrl \<Rightarrow>
                 Inr \<lparr> info_id = r_tunnel_id response,
                       info_url = href (rewrite_scheme (api_scheme os) parsedUrl),
                       remoteHost = o_serverHost os, remotePort = o_serverPort os \<rparr>))"
proof -
  have 1: "st \<noteq> Some 200 \<longrightarrow>
      on_response_end P U os st data =
        Inl (Error (ascii ''Failed to create tunnel: ''
                    @ reason (case st of None \<Rightarrow> 0 | Some c \<Rightarrow> c) data))"
    by (simp add: on_response_end_def)
  have s1: "sublist (ascii ''temporarily unavailable'')
     (ascii ''Tunnel server is temporarily unavailable (HTTP '' @ digits status @ ascii '')'')"
  proof -
    have "ascii ''Tunnel server is temporarily unavailable (HTTP '' @ digits status @ ascii '')''
          = ascii ''Tunnel server is '' @ ascii ''temporarily unavailable''
            @ (ascii '' (HTTP '' @ digits status @ ascii '')'')"
      by (simp add: ascii_def)
    then show ?thesis by (metis sublist_appendI)
  qed
  have s2: "sublist (digits status)
     (ascii ''Tunnel server is temporarily unavailable (HTTP '' @ digits status @ ascii '')'')"
    by (rule sublist_appendI)
  have 2: "status \<in> {502, 503, 504} \<longrightarrow>
        reason status data =
          ascii ''Tunnel server is temporarily unavailable (HTTP '' @ digits status @ ascii '')''
        \<and> sublist (ascii ''temporarily unavailable'') (reason status data)
        \<and> sublist (digits status) (reason status data)"
  proof
    assume "status \<in> {502, 503, 504}"
    then have r: "reason status data =
          ascii ''Tunnel server is temporarily unavailable (HTTP '' @ digits status @ ascii '')''"
      by (auto simp: reason_def)
    show "reason status data =
          ascii ''Tunnel server is temporarily unavailable (HTTP '' @ digits status @ ascii '')''
        \<and> sublist (ascii ''temporarily unavailable'') (reason status data)
        \<and> sublist (digits status) (reason status data)"
      unfolding r using s1 s2 by blast
  qed
  have 3: "status \<in> {401, 403} \<longrightarrow>
        reason status data =
          ascii ''Authentication failed (HTTP '' @ digits status @ ascii '') '' @ [8212]
          @ ascii '' check your API token''"
    by (auto simp: reason_def)
  have 4: "status = 429 \<longrightarrow>
        reason status data =
          ascii ''Rate limited by tunnel server (HTTP 429) '' @ [8212]
          @ ascii '' try again later''"
    by (auto simp: reason_def)
  have 5: "status \<notin> {502, 503, 504, 401, 403, 429} \<longrightarrow>
        reason status data =
          ascii ''HTTP '' @ digits status
          @ (if plain data = [] then [] else ascii '': '' @ take 120 (plain data))"
    by (auto simp: reason_def)
  have 6: "on_response_end P U os (Some 200) data =
       (case P data of
          None \<Rightarrow> Inl (Error (ascii ''Failed to parse tunnel response: '' @ data))
        | Some response \<Rightarrow>
            (case U (r_url response) of
               None \<Rightarrow> Inl (Error (ascii ''Failed to parse tunnel response: '' @ data))
             | Some parsedUrl \<Rightarrow>
                 Inr \<lparr> info_id = r_tunnel_id response,
                       info_url = href (rewrite_scheme (api_scheme os) parsedUrl),
                       remoteHost = o_serverHost os, remotePort = o_serverPort os \<rparr>))"
    by (simp add: on_response_end_def)
  have 7: "plain data = trim (collapse_ws (strip_tags data))" by (simp add: plain_def)
  have 8: "length (take 120 (plain data)) \<le> 120" by simp
  from 1 2 3 4 5 6 7 8 plain_spaces [of data] plain_no_tag [of 120 data]
  show ?thesis by blast
qed

lemma digits_201: "digits 201 = ascii ''201''"
  by code_simp

lemma digits_503: "digits 503 = ascii ''503''"
  by code_simp

lemma strip_tags_id: "60 \<notin> set s \<Longrightarrow> strip_tags s = s"
  by (induction s) auto

lemma collapse_ws_id: "\<forall>c\<in>set s. \<not> is_space c \<Longrightarrow> collapse_ws s = s"
  by (induction s) auto

lemma trim_id: "\<forall>c\<in>set s. \<not> is_space c \<Longrightarrow> trim s = s"
proof -
  assume a: "\<forall>c\<in>set s. \<not> is_space c"
  have d: "dropWhile is_space xs = xs" if "\<forall>c\<in>set xs. \<not> is_space c" for xs
    using that by (cases xs) auto
  show ?thesis using a by (simp add: trim_def d)
qed

lemma plain_id:
  assumes "\<forall>c\<in>set s. \<not> is_space c \<and> c \<noteq> 60"
  shows "plain s = s"
proof -
  have 1: "60 \<notin> set s" using assms by auto
  have 2: "\<forall>c\<in>set s. \<not> is_space c" using assms by auto
  show ?thesis
    by (simp add: plain_def strip_tags_id [OF 1] collapse_ws_id [OF 2] trim_id [OF 2])
qed

lemma plain_example_body: "plain example_body = example_body"
  by (rule plain_id) (simp add: example_body_def ascii_def is_space_def)

text \<open>C3 as stated fails: the status 201 is a 2xx status, and the allocation is rejected as
  a generic failure although its body is the one that succeeds with status 200.\<close>

theorem status_201_is_rejected:
  "on_response_end example_parse_response example_URL_parse (opts (constructor example_options))
     (Some 201) example_body
   = Inl (Error (ascii ''Failed to create tunnel: HTTP 201: '' @ example_body))"
proof -
  have "example_body \<noteq> []" by (simp add: example_body_def ascii_def)
  moreover have "length example_body \<le> 120" by (simp add: example_body_def ascii_def)
  ultimately show ?thesis
    by (simp add: on_response_end_def reason_def plain_example_body digits_201 ascii_def)
qed

lemma plain_html: "plain html_body = ascii ''502 Bad Gateway''"
proof -
  have 1: "strip_tags html_body = ascii ''502  Bad'' @ [10, 9] @ ascii ''Gateway ''"
    by (simp add: html_body_def ascii_def)
  have 2: "collapse_ws (strip_tags html_body) = ascii ''502 Bad Gateway ''"
    unfolding 1 by (simp add: ascii_def is_space_def)
  show ?thesis
    unfolding plain_def 2 by (simp add: trim_def ascii_def is_space_def)
qed

lemma digits_500: "digits 500 = ascii ''500''"
  by code_simp

lemma digits_403: "digits 403 = ascii ''403''"
  by code_simp

text \<open>The statuses 503, 403, 429 and 500 (with an HTML body), and a body that does not
  parse with the status 200.\<close>

theorem allocation_status_classes_witness:
  "on_response_end example_parse_response example_URL_parse (opts (constructor example_options))
     (Some 503) example_body
   = Inl (Error (ascii ''Failed to create tunnel: Tunnel server is temporarily unavailable (HTTP 503)''))
   \<and> sublist (ascii ''temporarily unavailable'') (reason 503 example_body)
   \<and> sublist (ascii ''503'') (reason 503 example_body)
   \<and> reason 403 html_body
       = ascii ''Authentication failed (HTTP 403) '' @ [8212] @ ascii '' check your API token''
   \<and> reason 429 html_body
       = ascii ''Rate limited by tunnel server (HTTP 429) '' @ [8212] @ ascii '' try again later''
   \<and> reason 500 html_body = ascii ''HTTP 500: 502 Bad Gateway''
   \<and> on_response_end example_parse_response example_URL_parse (opts (constructor example_options))
       (Some 200) html_body
     = Inl (Error (ascii ''Failed to parse tunnel response: '' @ html_body))"
proof -
  have a: "(Some 503 :: nat option) \<noteq> Some 200" by simp
  have b: "(503::nat) \<in> {502, 503, 504}" by simp
  note th = allocation_status_classes [of "Some 503" example_parse_response example_URL_parse
      "opts (constructor example_options)" example_body 503]
  from th a
  have "on_response_end example_parse_response example_URL_parse
          (opts (constructor example_options)) (Some 503) example_body
        = Inl (Error (ascii ''Failed to create tunnel: ''
                      @ reason (case Some 503 of None \<Rightarrow> 0 | Some c \<Rightarrow> c) example_body))"
    by blast
  then have 1: "on_response_end example_parse_response example_URL_parse
          (opts (constructor example_options)) (Some 503) example_body
        = Inl (Error (ascii ''Failed to create tunnel: '' @ reason 503 example_body))"
    by simp
  from th b
  have r: "reason 503 example_body =
          ascii ''Tunnel server is temporarily unavailable (HTTP '' @ digits 503 @ ascii '')''"
    and s1: "sublist (ascii ''temporarily unavailable'') (reason 503 example_body)"
    and s2: "sublist (digits 503) (reason 503 example_body)"
    by blast+
  have c1: "on_response_end example_parse_response example_URL_parse
          (opts (constructor example_options)) (Some 503) example_body
        = Inl (Error (ascii ''Failed to create tunnel: Tunnel server is temporarily unavailable (HTTP 503)''))"
    unfolding 1 r by (simp add: digits_503 ascii_def)
  have c3: "sublist (ascii ''503'') (reason 503 example_body)"
    using s2 by (simp add: digits_503)
  have "(403::nat) \<in> {401, 403}" by simp
  with allocation_status_classes [of _ _ _ _ html_body 403]
  have "reason 403 html_body
       = ascii ''Authentication failed (HTTP '' @ digits 403 @ ascii '') '' @ [8212]
         @ ascii '' check your API token''"
    by blast
  then have c4: "reason 403 html_body
       = ascii ''Authentication failed (HTTP 403) '' @ [8212] @ ascii '' check your API token''"
    by (simp add: digits_403 ascii_def)
  from allocation_status_classes [of _ _ _ _ html_body 429]
  have c5: "reason 429 html_body
       = ascii ''Rate limited by tunnel server (HTTP 429) '' @ [8212] @ ascii '' try again later''"
    by blast
  have "(500::nat) \<notin> {502, 503, 504, 401, 403, 429}" by simp
  with allocation_status_classes [of _ _ _ _ html_body 500]
  have "reason 500 html_body =
          ascii ''HTTP '' @ digits 500
          @ (if plain html_body = [] then [] else ascii '': '' @ take 120 (plain html_body))"
    by blast
  then have c6: "reason 500 html_body = ascii ''HTTP 500: 502 Bad Gateway''"
    by (simp add: plain_html digits_500 ascii_def)
  from allocation_status_classes [of _ example_parse_response example_URL_parse
      "opts (constructor example_options)" html_body _]
  have "on_response_end example_parse_response example_URL_parse
          (opts (constructor example_options)) (Some 200) html_body =
       (case example_parse_response html_body of
          None \<Rightarrow> Inl (Error (ascii ''Failed to parse tunnel response: '' @ html_body))
        | Some response \<Rightarrow>
            (case example_URL_parse (r_url response) of
               None \<Rightarrow> Inl (Error (ascii ''Failed to parse tunnel response: '' @ html_body))
             | Some parsedUrl \<Rightarrow>
                 Inr \<lparr> info_id = r_tunnel_id response,
                       info_url = href (rewrite_scheme
                                          (api_scheme (opts (constructor example_options)))
                                          parsedUrl),
                       remoteHost = o_serverHost (opts (constructor example_options)),
                       remotePort = o_serverPort (opts (constructor example_options)) \<rparr>))"
    by blast
  moreover have "example_parse_response html_body = None"
    by (simp add: example_parse_response_def html_body_def example_body_def ascii_def)
  ultimately have c7: "on_response_end example_parse_response example_URL_parse
       (opts (constructor example_options)) (Some 200) html_body
     = Inl (Error (ascii ''Failed to parse tunnel response: '' @ html_body))"
    by simp
  from c1 s1 c3 c4 c5 c6 c7 show ?thesis by blast
qed

subsection \<open>The scheme of the public URL\<close>








subsection \<open>Forwarded headers\<close>






subsection \<open>Failures while forwarding\<close>

lemma reply_502_unsent:
  "\<not> headersSent (res x) \<Longrightarrow> \<not> res_ending (res x) \<Longrightarrow> \<not> res_closed (res x) \<Longrightarrow>
   reply_502 body x =
     Inr (x\<lparr>res := (res x)\<lparr>headersSent := True, statusCode := 502, res_headers := text_plain,
                           res_body := res_body (res x) @ [body], res_ending := True\<rparr>\<rparr>)"
  by (simp add: reply_502_def writeHead_def res_end_def)

lemma reply_502_sent:
  "headersSent (res x) \<Longrightarrow> reply_502 body x = Inr (x\<lparr>res := res_end body (res x)\<rparr>)"
  by (simp add: reply_502_def)

lemma reply_502_total: "\<exists>x'. reply_502 body x = Inr x'"
  by (simp add: reply_502_def writeHead_def)

text \<open>
  C4, as the code has it. A failure of the pipe into the local request, or of the local
  request itself, is logged. If the header block was not sent yet, the response gets the
  status 502 with content type text/plain and is ended with the failure text
  (\<open>Bad Gateway\<close> for the pipe). If the header block was already sent, no second one is
  written, but \<open>res.end\<close> is still called with the failure text: on a response that is not
  yet ended it is appended to the body and ends the response. Only on a response already
  ended or closed is nothing written. A failure of the pipe from the local response is
  logged and nothing else.
\<close>

theorem failure_replies:
  "(\<not> headersSent (res x) \<and> \<not> res_ending (res x) \<and> \<not> res_closed (res x) \<longrightarrow>
      request_pipeline_done (Some m) x =
        Inr (x\<lparr>res := (res x)\<lparr>headersSent := True, statusCode := 502,
                   res_headers := text_plain,
                   res_body := res_body (res x) @ [ascii ''Bad Gateway''], res_ending := True\<rparr>,
               console := console x @ [ascii ''Request pipeline error: '' @ m]\<rparr>)
      \<and> client_request_error m x =
        Inr (x\<lparr>res := (res x)\<lparr>headersSent := True, statusCode := 502,
                   res_headers := text_plain,
                   res_body := res_body (res x) @ [ascii ''Failed to connect to local server: '' @ m],
                   res_ending := True\<rparr>,
               console := console x @ [ascii ''Local request error: '' @ m]\<rparr>))
   \<and> (headersSent (res x) \<and> \<not> res_ending (res x) \<and> \<not> res_closed (res x) \<longrightarrow>
      request_pipeline_done (Some m) x =
        Inr (x\<lparr>res := (res x)\<lparr>res_body := res_body (res x) @ [ascii ''Bad Gateway''],
                   res_ending := True\<rparr>,
               console := console x @ [ascii ''Request pipeline error: '' @ m]\<rparr>)
      \<and> client_request_error m x =
        Inr (x\<lparr>res := (res x)\<lparr>res_body := res_body (res x)
                                  @ [ascii ''Failed to connect to local server: '' @ m],
                   res_ending := True\<rparr>,
               console := console x @ [ascii ''Local request error: '' @ m]\<rparr>))
   \<and> (res_closed (res x) \<or> headersSent (res x) \<and> res_ending (res x) \<longrightarrow>
      request_pipeline_done (Some m) x =
        Inr (x\<lparr>console := console x @ [ascii ''Request pipeline error: '' @ m]\<rparr>)
      \<and> client_request_error m x =
        Inr (x\<lparr>console := console x @ [ascii ''Local request error: '' @ m]\<rparr>))
   \<and> response_pipeline_done (Some m) x =
        Inr (x\<lparr>console := console x @ [ascii ''Response pipeline error: '' @ m]\<rparr>)
   \<and> request_pipeline_done None x = Inr x \<and> response_pipeline_done None x = Inr x
   \<and> text_plain (ascii ''content-type'') = Some (Single (ascii ''text/plain''))"
proof -
  have 1: "\<not> headersSent (res x) \<and> \<not> res_ending (res x) \<and> \<not> res_closed (res x) \<longrightarrow>
      request_pipeline_done (Some m) x =
        Inr (x\<lparr>res := (res x)\<lparr>headersSent := True, statusCode := 502,
                   res_headers := text_plain,
                   res_body := res_body (res x) @ [ascii ''Bad Gateway''], res_ending := True\<rparr>,
               console := console x @ [ascii ''Request pipeline error: '' @ m]\<rparr>)
      \<and> client_request_error m x =
        Inr (x\<lparr>res := (res x)\<lparr>headersSent := True, statusCode := 502,
                   res_headers := text_plain,
                   res_body := res_body (res x) @ [ascii ''Failed to connect to local server: '' @ m],
                   res_ending := True\<rparr>,
               console := console x @ [ascii ''Local request error: '' @ m]\<rparr>)"
    by (simp add: request_pipeline_done_def client_request_error_def reply_502_unsent)
  have 2: "headersSent (res x) \<and> \<not> res_ending (res x) \<and> \<not> res_closed (res x) \<longrightarrow>
      request_pipeline_done (Some m) x =
        Inr (x\<lparr>res := (res x)\<lparr>res_body := res_body (res x) @ [ascii ''Bad Gateway''],
                   res_ending := True\<rparr>,
               console := console x @ [ascii ''Request pipeline error: '' @ m]\<rparr>)
      \<and> client_request_error m x =
        Inr (x\<lparr>res := (res x)\<lparr>res_body := res_body (res x)
                                  @ [ascii ''Failed to connect to local server: '' @ m],
                   res_ending := True\<rparr>,
               console := console x @ [ascii ''Local request error: '' @ m]\<rparr>)"
    by (cases x, cases "res x")
       (simp add: request_pipeline_done_def client_request_error_def reply_502_sent res_end_def)
  have 3: "res_closed (res x) \<or> headersSent (res x) \<and> res_ending (res x) \<longrightarrow>
      request_pipeline_done (Some m) x =
        Inr (x\<lparr>console := console x @ [ascii ''Request pipeline error: '' @ m]\<rparr>)
      \<and> client_request_error m x =
        Inr (x\<lparr>console := console x @ [ascii ''Local request error: '' @ m]\<rparr>)"
    by (cases x, cases "res x")
       (auto simp: request_pipeline_done_def client_request_error_def reply_502_def
          writeHead_def res_end_def)
  have 4: "response_pipeline_done (Some m) x =
        Inr (x\<lparr>console := console x @ [ascii ''Response pipeline error: '' @ m]\<rparr>)"
    by (simp add: response_pipeline_done_def)
  have 5: "request_pipeline_done None x = Inr x \<and> response_pipeline_done None x = Inr x"
    by (simp add: request_pipeline_done_def response_pipeline_done_def)
  have 6: "text_plain (ascii ''content-type'') = Some (Single (ascii ''text/plain''))"
    by (simp add: text_plain_def)
  from 1 2 3 4 5 6 show ?thesis by blast
qed

theorem failure_replies_witness:
  "\<not> headersSent fresh_response
   \<and> request_pipeline_done (Some (ascii ''aborted'')) \<lparr>res = fresh_response, console = []\<rparr> =
       Inr \<lparr> res = \<lparr> headersSent = True, statusCode = 502, res_headers = text_plain,
                     res_body = [ascii ''Bad Gateway''], res_ending = True, res_closed = False \<rparr>,
             console = [ascii ''Request pipeline error: aborted''] \<rparr>
   \<and> headersSent (res half_sent)
   \<and> client_request_error (ascii ''reset'') half_sent =
       Inr \<lparr> res = \<lparr> headersSent = True, statusCode = 200, res_headers = Map.empty,
                     res_body = [ascii ''partial'',
                                 ascii ''Failed to connect to local server: reset''],
                     res_ending = True, res_closed = False \<rparr>,
             console = [ascii ''Local request error: reset''] \<rparr>
   \<and> res_closed (fresh_response\<lparr>res_closed := True\<rparr>)
   \<and> res_body (res (projr (request_pipeline_done (Some (ascii ''aborted''))
         \<lparr>res = fresh_response\<lparr>res_closed := True\<rparr>, console = []\<rparr>))) = []"
proof -
  let ?x = "\<lparr>res = fresh_response, console = []\<rparr>"
  let ?c = "\<lparr>res = fresh_response\<lparr>res_closed := True\<rparr>, console = []\<rparr>"
  have a: "\<not> headersSent (res ?x) \<and> \<not> res_ending (res ?x) \<and> \<not> res_closed (res ?x)"
    by (simp add: fresh_response_def)
  from failure_replies [of ?x "ascii ''aborted''"] a
  have "request_pipeline_done (Some (ascii ''aborted'')) ?x =
        Inr (?x\<lparr>res := (res ?x)\<lparr>headersSent := True, statusCode := 502,
                   res_headers := text_plain,
                   res_body := res_body (res ?x) @ [ascii ''Bad Gateway''], res_ending := True\<rparr>,
               console := console ?x @ [ascii ''Request pipeline error: '' @ ascii ''aborted'']\<rparr>)"
    by blast
  then have 1: "request_pipeline_done (Some (ascii ''aborted'')) ?x =
       Inr \<lparr> res = \<lparr> headersSent = True, statusCode = 502, res_headers = text_plain,
                     res_body = [ascii ''Bad Gateway''], res_ending = True, res_closed = False \<rparr>,
             console = [ascii ''Request pipeline error: aborted''] \<rparr>"
    by (simp add: fresh_response_def ascii_def)
  have b: "headersSent (res half_sent) \<and> \<not> res_ending (res half_sent)
           \<and> \<not> res_closed (res half_sent)"
    by (simp add: half_sent_def)
  from failure_replies [of half_sent "ascii ''reset''"] b
  have "client_request_error (ascii ''reset'') half_sent =
        Inr (half_sent\<lparr>res := (res half_sent)\<lparr>res_body := res_body (res half_sent)
                                  @ [ascii ''Failed to connect to local server: '' @ ascii ''reset''],
                   res_ending := True\<rparr>,
               console := console half_sent @ [ascii ''Local request error: '' @ ascii ''reset'']\<rparr>)"
    by blast
  then have 2: "client_request_error (ascii ''reset'') half_sent =
       Inr \<lparr> res = \<lparr> headersSent = True, statusCode = 200, res_headers = Map.empty,
                     res_body = [ascii ''partial'',
                                 ascii ''Failed to connect to local server: reset''],
                     res_ending = True, res_closed = False \<rparr>,
             console = [ascii ''Local request error: reset''] \<rparr>"
    by (simp add: half_sent_def ascii_def)
  have c: "res_closed (res ?c) \<or> headersSent (res ?c) \<and> res_ending (res ?c)" by simp
  from failure_replies [of ?c "ascii ''aborted''"] c
  have "request_pipeline_done (Some (ascii ''aborted'')) ?c =
        Inr (?c\<lparr>console := console ?c @ [ascii ''Request pipeline error: '' @ ascii ''aborted'']\<rparr>)"
    by blast
  then have 3: "res_body (res (projr (request_pipeline_done (Some (ascii ''aborted'')) ?c))) = []"
    by (simp add: fresh_response_def)
  from a 1 b 2 3 show ?thesis by simp
qed

text \<open>C4 as stated fails: on a response whose headers and first chunk went out, a pipe
  failure appends \<open>Bad Gateway\<close> to the body.\<close>

theorem late_failure_still_writes:
  "headersSent (res half_sent)
   \<and> request_pipeline_done (Some (ascii ''aborted'')) half_sent =
       Inr \<lparr> res = \<lparr> headersSent = True, statusCode = 200, res_headers = Map.empty,
                     res_body = [ascii ''partial'', ascii ''Bad Gateway''],
                     res_ending = True, res_closed = False \<rparr>,
             console = [ascii ''Request pipeline error: aborted''] \<rparr>"
  by (simp add: half_sent_def request_pipeline_done_def reply_502_def res_end_def ascii_def)

subsection \<open>The WebSocket bridge\<close>

lemma bridge_inbound_sent:
  "ws_sent (bridge_inbound evs ws) = ws_sent ws @ arriving_while_open (readyState ws) evs"
proof (induction evs ws rule: bridge_inbound.induct)
  case (1 localWs)
  then show ?case by simp
next
  case (2 chunk evs localWs)
  then show ?case by (simp add: on_req_data_def)
next
  case (3 evs localWs)
  then show ?case by (simp add: on_req_end_def)
next
  case (4 s evs localWs)
  then show ?case by simp
qed

lemma bridge_inbound_discards:
  "readyState ws \<noteq> OPEN \<Longrightarrow> bridge_inbound (map Data chunks) ws = ws"
  by (induction chunks) (simp_all add: on_req_data_def)

text \<open>
  C10. The \<open>open\<close> listener writes the status 200. From then on a chunk of the virtual
  stream is sent to the local WebSocket if that is open, and otherwise leaves no trace: the
  socket is as it was, whatever number of chunks arrive. Over any sequence of chunks, ends
  and changes of the socket's state, what was sent is exactly the chunks that arrived
  while the socket was open. The end of the stream closes the socket if it is open and
  does nothing otherwise.
\<close>

theorem inbound_only_while_open:
  "(readyState ws = OPEN \<longrightarrow>
      on_req_data chunk ws = ws\<lparr>ws_sent := ws_sent ws @ [chunk]\<rparr>
      \<and> on_req_end ws = ws\<lparr>readyState := CLOSING\<rparr>)
   \<and> (readyState ws \<noteq> OPEN \<longrightarrow>
      on_req_data chunk ws = ws \<and> on_req_end ws = ws
      \<and> bridge_inbound (map Data chunks) ws = ws)
   \<and> ws_sent (bridge_inbound evs ws) = ws_sent ws @ arriving_while_open (readyState ws) evs
   \<and> (\<not> headersSent r \<and> \<not> res_closed r \<longrightarrow>
        on_local_open r = Inr (r\<lparr>headersSent := True, statusCode := 200, res_headers := Map.empty\<rparr>))"
  by (simp add: on_req_data_def on_req_end_def bridge_inbound_discards bridge_inbound_sent
      on_local_open_def writeHead_def)

theorem inbound_only_while_open_witness:
  "readyState local_socket = OPEN
   \<and> ws_sent (bridge_inbound example_inbound local_socket) = [ascii ''a'']
   \<and> readyState (local_socket\<lparr>readyState := CLOSED\<rparr>) \<noteq> OPEN
   \<and> on_req_data (ascii ''b'') (local_socket\<lparr>readyState := CLOSED\<rparr>)
       = local_socket\<lparr>readyState := CLOSED\<rparr>
   \<and> on_req_end (local_socket\<lparr>readyState := CLOSED\<rparr>) = local_socket\<lparr>readyState := CLOSED\<rparr>
   \<and> readyState (on_req_end local_socket) = CLOSING
   \<and> on_local_open fresh_response = Inr (fresh_response\<lparr>headersSent := True\<rparr>)"
proof -
  let ?c = "local_socket\<lparr>readyState := CLOSED\<rparr>"
  have o: "readyState local_socket = OPEN" by (simp add: local_socket_def)
  have c: "readyState ?c \<noteq> OPEN" by simp
  from inbound_only_while_open [of local_socket _ _ example_inbound]
  have "ws_sent (bridge_inbound example_inbound local_socket)
        = ws_sent local_socket @ arriving_while_open (readyState local_socket) example_inbound"
    by blast
  then have 1: "ws_sent (bridge_inbound example_inbound local_socket) = [ascii ''a'']"
    by (simp add: o example_inbound_def local_socket_def)
  from inbound_only_while_open [of ?c "ascii ''b''"] c
  have 2: "on_req_data (ascii ''b'') ?c = ?c \<and> on_req_end ?c = ?c"
    by blast
  from inbound_only_while_open [of local_socket] o
  have "on_req_end local_socket = local_socket\<lparr>readyState := CLOSING\<rparr>" by blast
  then have 3: "readyState (on_req_end local_socket) = CLOSING" by simp
  have f: "\<not> headersSent fresh_response \<and> \<not> res_closed fresh_response"
    by (simp add: fresh_response_def)
  from inbound_only_while_open [of _ _ _ _ fresh_response] f
  have "on_local_open fresh_response =
          Inr (fresh_response\<lparr>headersSent := True, statusCode := 200, res_headers := Map.empty\<rparr>)"
    by blast
  then have 4: "on_local_open fresh_response = Inr (fresh_response\<lparr>headersSent := True\<rparr>)"
    by (simp add: fresh_response_def)
  from o 1 c 2 3 4 show ?thesis by blast
qed

end
